theory Spec2Isabelle
  imports Complex_Main "HOL-Library.AList" "HOL-Library.Sublist"
    "HOL-Library.Char_ord" "HOL-Library.List_Lexorder"
begin

section \<open>Text primitives\<close>

text \<open>
  Python strings are sequences of code points. Text is modelled as \<^typ>\<open>string\<close> with one
  \<^typ>\<open>char\<close> per code point, which covers the code points below 256 (the Latin-1 range, enough
  for the Spanish text the program handles); \<open>length\<close> is Python's \<open>len\<close>.

  \<open>lower_char\<close> is \<open>str.lower\<close> on one such code point: the letters A-Z and the
  upper-case letters 0xC0-0xDE (the multiplication sign 0xD7 apart) move up by 32.
\<close>

definition lower_char :: "char \<Rightarrow> char" where
  "lower_char c =
     (let n = (of_char c :: nat)
      in if (65 \<le> n \<and> n \<le> 90) \<or> (192 \<le> n \<and> n \<le> 222 \<and> n \<noteq> 215)
         then char_of (n + 32) else c)"

definition lower :: "string \<Rightarrow> string" where
  "lower s = map lower_char s"

text \<open>
  \<open>is_space\<close> is \<open>str.isspace\<close> on one code point below 256: the controls 0x09-0x0D and
  0x1C-0x1F, the space, NEL (0x85) and the no-break space (0xA0). \<open>strip\<close> is \<open>str.strip()\<close>.
\<close>

definition is_space :: "char \<Rightarrow> bool" where
  "is_space c =
     (let n = (of_char c :: nat)
      in (9 \<le> n \<and> n \<le> 13) \<or> (28 \<le> n \<and> n \<le> 32) \<or> n = 133 \<or> n = 160)"

definition strip :: "string \<Rightarrow> string" where
  "strip s = rev (dropWhile is_space (rev (dropWhile is_space s)))"

text \<open>\<open>contains sub s\<close> is Python's \<open>sub in s\<close> on strings: \<open>sub\<close> occurs in \<open>s\<close> as a
  contiguous block.\<close>

fun contains :: "string \<Rightarrow> string \<Rightarrow> bool" where
  "contains sub [] = (sub = [])"
| "contains sub (c # cs) = (prefix sub (c # cs) \<or> contains sub cs)"

section \<open>Data model (\<open>src/utils/data_models.py\<close>)\<close>

text \<open>
  A value of type \<open>Any\<close> in a dictionary (\<open>metadatos\<close>, \<open>filtros\<close>,
  \<open>parametros_generacion\<close>): \<open>None\<close>, a string, a number, a boolean or a list of strings.
\<close>

datatype py_val = PNone | PStr string | PNum real | PBool bool | PList "string list"

text \<open>
  \<open>QAItem\<close>. A confidence is a Python float; the field holds the real number the float
  denotes, and the arithmetic on it is the runtime's (see \<open>py_runtime\<close> below). A decimal
  the source writes, as the default 0.8, stands for the float that literal denotes;
  comparisons of floats are exact. A dictionary is an association list in insertion order. The field \<open>id\<close> is named
  \<open>id_item\<close> (\<open>id\<close> is the identity function of HOL).
\<close>

record qa_item =
  id_item :: string
  pregunta :: string
  respuesta :: string
  categoria :: string
  nivel :: string
  tema :: string
  fuentes :: "string list"
  palabras_clave :: "string list"
  idioma :: string
  confianza :: real
  metadatos :: "(string \<times> py_val) list"
  fecha_creacion :: string

text \<open>
  Records are objects: a list of records holds references, and two lists can hold the same
  object. A reference is an address, and the heap gives the object at each address; an
  assignment to a field of an object is an update of the heap at its address, seen through
  every list that holds the reference.
\<close>

type_synonym ref = nat

type_synonym heap = "ref \<Rightarrow> qa_item"

datatype origen_t = Prompt | Documento | Manual | Api

text \<open>\<open>QABatch\<close>; its \<open>id\<close> and \<open>fecha_creacion\<close> carry the suffix \<open>_batch\<close>. Its
  \<open>items\<close> are references to records.\<close>

record qa_batch =
  id_batch :: string
  items :: "ref list"
  origen :: origen_t
  prompt_original :: "string option"
  documento_fuente :: "string option"
  parametros_generacion :: "(string \<times> py_val) list"
  estadisticas :: "(string \<times> py_val) list"
  fecha_creacion_batch :: string

section \<open>What the Python runtime supplies\<close>

text \<open>
  Float arithmetic rounds, the built-in \<open>sum\<close> over floats has its own summation
  algorithm, and \<open>list(set(xs))\<close> lists each element of \<open>xs\<close> once in an order that
  depends on the hashes of the strings. None of this is code of the repository; the
  definitions below take it as the parameter \<open>rt\<close>:
  \<^item> \<open>fl_add a b\<close> is the float \<open>a + b\<close>, \<open>fl_div a b\<close> the float \<open>a / b\<close> for \<open>b\<close> not zero;
  \<^item> \<open>fl_sum xs\<close> is \<open>sum(xs)\<close> on a sequence of floats;
  \<^item> \<open>list_set xs\<close> is \<open>list(set(xs))\<close>.
  \<open>sound_list_set\<close> is what Python guarantees of \<open>list(set(xs))\<close>: the elements of
  \<open>xs\<close>, each once.
\<close>

record py_runtime =
  fl_add :: "real \<Rightarrow> real \<Rightarrow> real"
  fl_div :: "real \<Rightarrow> real \<Rightarrow> real"
  fl_sum :: "real list \<Rightarrow> real"
  list_set :: "string list \<Rightarrow> string list"

definition sound_list_set :: "py_runtime \<Rightarrow> bool" where
  "sound_list_set rt = (\<forall>xs. set (list_set rt xs) = set xs \<and> distinct (list_set rt xs))"

section \<open>The unifier (\<open>src/unifiers/data_unifier_simple.py\<close>)\<close>

text \<open>
  \<open>QADataUnifier\<close>: the ingested batches and the working collection, a list of
  references. \<open>add_batch\<close> (line 30) appends the batch's own references, so the working
  collection and the batch share their records.
\<close>

record unifier =
  batches :: "qa_batch list"
  unified_items :: "ref list"

definition new_unifier :: unifier where
  "new_unifier = \<lparr>batches = [], unified_items = []\<rparr>"

definition add_batch :: "qa_batch \<Rightarrow> unifier \<Rightarrow> unifier" where
  "add_batch batch u =
     u\<lparr>batches := batches u @ [batch], unified_items := unified_items u @ items batch\<rparr>"

fun add_batches :: "qa_batch list \<Rightarrow> unifier \<Rightarrow> unifier" where
  "add_batches [] u = u"
| "add_batches (batch # rest) u = add_batches rest (add_batch batch u)"

subsection \<open>\<open>merge_similar_items\<close>\<close>

text \<open>
  \<open>difflib.SequenceMatcher(None, a, b).ratio()\<close> is library code; it is the parameter
  \<open>ratio\<close> of the definitions below, which hold for every such function.

  \<open>is_similar\<close> is the test of line 64 on the incoming \<open>item\<close> and one \<open>existing\<close> record.
\<close>

definition is_similar :: "(string \<Rightarrow> string \<Rightarrow> real) \<Rightarrow> real \<Rightarrow> qa_item \<Rightarrow> qa_item \<Rightarrow> bool" where
  "is_similar ratio threshold item existing =
     (let question_sim = ratio (strip (lower (pregunta item))) (strip (lower (pregunta existing)));
          answer_sim = ratio (strip (lower (respuesta item))) (strip (lower (respuesta existing)))
      in question_sim > threshold \<or> answer_sim > threshold)"

text \<open>
  Lines 66-78, the new state of the existing record from its state and the incoming
  record's before the update. Each of the four assignments reads fields that no earlier
  one has written, so this is the result also when both are the same object. The lists a
  record holds in \<open>fuentes\<close> and \<open>palabras_clave\<close> are its own (pydantic builds them
  when it constructs the record), so extending one in place changes no other record. The length
  test reads the existing answer before it is replaced. On two lengths \<open>m\<close> and \<open>n\<close> the
  float test \<open>m > n * 1.2\<close> decides as the exact one does (\<open>5 * m > 6 * n\<close>): the float
  product is the integer \<open>6 * n / 5\<close> itself when 5 divides \<open>n\<close>, and otherwise lies at
  least 0.2 minus a rounding error away from every integer. The mean of line 78 is float
  arithmetic: \<open>fl_add\<close>, then \<open>fl_div\<close> by 2.
\<close>

definition merge_fields :: "py_runtime \<Rightarrow> qa_item \<Rightarrow> qa_item \<Rightarrow> qa_item" where
  "merge_fields rt existing item =
     existing\<lparr>
       fuentes := list_set rt (fuentes existing @ fuentes item),
       palabras_clave := list_set rt (palabras_clave existing @ palabras_clave item),
       respuesta :=
         (if real (length (respuesta item)) > real (length (respuesta existing)) * 1.2
          then respuesta item else respuesta existing),
       confianza := fl_div rt (fl_add rt (confianza existing) (confianza item)) 2\<rparr>"

text \<open>
  The inner loop (lines 50-82) over the records already placed: the first similar one is
  updated in place, an update of the heap, and the scan stops (\<open>break\<close>); \<open>None\<close> is
  \<open>is_duplicate = False\<close>. The list of placed references itself does not change.
\<close>

fun scan_merged :: "py_runtime \<Rightarrow> (string \<Rightarrow> string \<Rightarrow> real) \<Rightarrow> real \<Rightarrow> heap \<Rightarrow> ref \<Rightarrow> ref list
    \<Rightarrow> heap option" where
  "scan_merged rt ratio threshold h item [] = None"
| "scan_merged rt ratio threshold h item (existing_item # rest) =
     (if is_similar ratio threshold (h item) (h existing_item)
      then Some (h(existing_item := merge_fields rt (h existing_item) (h item)))
      else scan_merged rt ratio threshold h item rest)"

text \<open>The outer loop (lines 46-86), with \<open>merged_items\<close>, \<open>merged_count\<close> and the heap as
  accumulators.\<close>

fun merge_loop :: "py_runtime \<Rightarrow> (string \<Rightarrow> string \<Rightarrow> real) \<Rightarrow> real \<Rightarrow> ref list \<Rightarrow> ref list \<Rightarrow> nat
    \<Rightarrow> heap \<Rightarrow> ref list \<times> nat \<times> heap" where
  "merge_loop rt ratio threshold [] merged_items merged_count h = (merged_items, merged_count, h)"
| "merge_loop rt ratio threshold (item # rest) merged_items merged_count h =
     (case scan_merged rt ratio threshold h item merged_items of
        Some h' \<Rightarrow> merge_loop rt ratio threshold rest merged_items (merged_count + 1) h'
      | None \<Rightarrow> merge_loop rt ratio threshold rest (merged_items @ [item]) merged_count h)"

text \<open>\<open>merge_similar_items\<close> returns the count; the model returns with it the unifier and
  the heap the call leaves.\<close>

definition merge_similar_items ::
    "py_runtime \<Rightarrow> (string \<Rightarrow> string \<Rightarrow> real) \<Rightarrow> real \<Rightarrow> unifier \<Rightarrow> heap \<Rightarrow> unifier \<times> heap \<times> nat" where
  "merge_similar_items rt ratio similarity_threshold u h =
     (let (merged_items, merged_count, h') =
            merge_loop rt ratio similarity_threshold (unified_items u) [] 0 h
      in (u\<lparr>unified_items := merged_items\<rparr>, h', merged_count))"

subsection \<open>\<open>filter_items\<close>\<close>

text \<open>The exceptions the modelled code can raise; \<open>ValueError\<close> carries its message.\<close>

datatype py_error =
    ValueError string
  | AttributeError
  | TypeError
  | OSError
  | ValidationError
  | ZeroDivisionError

text \<open>Python's truth value of a dictionary value (\<open>and filters['categoria']\<close>).\<close>

fun truthy :: "py_val \<Rightarrow> bool" where
  "truthy PNone = False"
| "truthy (PStr s) = (s \<noteq> [])"
| "truthy (PNum r) = (r \<noteq> 0)"
| "truthy (PBool b) = b"
| "truthy (PList l) = (l \<noteq> [])"

text \<open>\<open>'key' in filters and filters['key']\<close>: the value of an active key.\<close>

definition active_filter :: "(string \<rightharpoonup> py_val) \<Rightarrow> string \<Rightarrow> py_val option" where
  "active_filter filters key =
     (case filters key of None \<Rightarrow> None | Some v \<Rightarrow> if truthy v then Some v else None)"

text \<open>\<open>v.lower()\<close>: only a string has the method.\<close>

fun str_lower :: "py_val \<Rightarrow> py_error + string" where
  "str_lower (PStr s) = Inr (lower s)"
| "str_lower v = Inl AttributeError"

text \<open>
  \<open>float(v)\<close>. Parsing a string is library code: the parameter \<open>float_of_str\<close> gives the
  number a string denotes, \<open>None\<close> when \<open>float\<close> raises \<open>ValueError\<close> on it.
\<close>

fun py_float :: "(string \<Rightarrow> real option) \<Rightarrow> py_val \<Rightarrow> py_error + real" where
  "py_float float_of_str (PNum r) = Inr r"
| "py_float float_of_str (PBool b) = Inr (if b then 1 else 0)"
| "py_float float_of_str (PStr s) =
     (case float_of_str s of
        Some r \<Rightarrow> Inr r
      | None \<Rightarrow> Inl (ValueError ''could not convert string to float''))"
| "py_float float_of_str v = Inl TypeError"

text \<open>Sequencing of steps that may raise: the first exception ends the computation.\<close>

definition and_then :: "'e + 'a \<Rightarrow> ('a \<Rightarrow> 'e + 'b) \<Rightarrow> 'e + 'b" where
  "and_then r f = (case r of Inl e \<Rightarrow> Inl e | Inr x \<Rightarrow> f x)"

text \<open>The four steps of \<open>filter_items\<close> (lines 98-115), each on the list the one before left.
  The lists hold references; the tests read the records in the heap, and nothing is written.\<close>

definition by_categoria :: "(string \<rightharpoonup> py_val) \<Rightarrow> heap \<Rightarrow> ref list \<Rightarrow> py_error + ref list" where
  "by_categoria filters h filtered_items =
     (case active_filter filters ''categoria'' of
        None \<Rightarrow> Inr filtered_items
      | Some v \<Rightarrow>
          and_then (str_lower v)
            (\<lambda>c. Inr (filter (\<lambda>item. lower (categoria (h item)) = c) filtered_items)))"

definition by_nivel :: "(string \<rightharpoonup> py_val) \<Rightarrow> heap \<Rightarrow> ref list \<Rightarrow> py_error + ref list" where
  "by_nivel filters h filtered_items =
     (case active_filter filters ''nivel'' of
        None \<Rightarrow> Inr filtered_items
      | Some v \<Rightarrow>
          and_then (str_lower v)
            (\<lambda>n. Inr (filter (\<lambda>item. lower (nivel (h item)) = n) filtered_items)))"

definition by_tema :: "(string \<rightharpoonup> py_val) \<Rightarrow> heap \<Rightarrow> ref list \<Rightarrow> py_error + ref list" where
  "by_tema filters h filtered_items =
     (case active_filter filters ''tema'' of
        None \<Rightarrow> Inr filtered_items
      | Some v \<Rightarrow>
          and_then (str_lower v)
            (\<lambda>t. Inr (filter (\<lambda>item. contains t (lower (tema (h item)))) filtered_items)))"

definition by_confianza_minima ::
    "(string \<Rightarrow> real option) \<Rightarrow> (string \<rightharpoonup> py_val) \<Rightarrow> heap \<Rightarrow> ref list \<Rightarrow> py_error + ref list" where
  "by_confianza_minima float_of_str filters h filtered_items =
     (case active_filter filters ''confianza_minima'' of
        None \<Rightarrow> Inr filtered_items
      | Some v \<Rightarrow>
          and_then (py_float float_of_str v)
            (\<lambda>min_conf. Inr (filter (\<lambda>item. confianza (h item) \<ge> min_conf) filtered_items)))"

definition filter_items ::
    "(string \<Rightarrow> real option) \<Rightarrow> (string \<rightharpoonup> py_val) \<Rightarrow> unifier \<Rightarrow> heap \<Rightarrow> py_error + ref list" where
  "filter_items float_of_str filters u h =
     and_then (by_categoria filters h (unified_items u)) (\<lambda>xs1.
     and_then (by_nivel filters h xs1) (\<lambda>xs2.
     and_then (by_tema filters h xs2) (\<lambda>xs3.
     by_confianza_minima float_of_str filters h xs3)))"

subsection \<open>\<open>get_statistics\<close>\<close>

text \<open>The values of the statistics dictionary: a count, a number, a frequency table.\<close>

datatype stat_val =
    SInt nat
  | SReal real
  | SDist "(string \<times> nat) list"
  | SOrigenes "(origen_t \<times> nat) list"

text \<open>\<open>d[k] = d.get(k, 0) + n\<close> on a dictionary in insertion order.\<close>

definition add_count :: "'k \<Rightarrow> nat \<Rightarrow> ('k \<times> nat) list \<Rightarrow> ('k \<times> nat) list" where
  "add_count k n d = AList.update k ((case map_of d k of None \<Rightarrow> 0 | Some c \<Rightarrow> c) + n) d"

fun count_by :: "(qa_item \<Rightarrow> string) \<Rightarrow> qa_item list \<Rightarrow> (string \<times> nat) list \<Rightarrow> (string \<times> nat) list" where
  "count_by f [] d = d"
| "count_by f (item # rest) d = count_by f rest (add_count (f item) 1 d)"

fun count_origenes :: "qa_batch list \<Rightarrow> (origen_t \<times> nat) list \<Rightarrow> (origen_t \<times> nat) list" where
  "count_origenes [] d = d"
| "count_origenes (batch # rest) d =
     count_origenes rest (add_count (origen batch) (length (items batch)) d)"

text \<open>\<open>dict(sorted(temas.items(), key=lambda x: x[1], reverse=True)[:10])\<close>: a stable sort
  by falling count, then the first ten.\<close>

definition top_temas :: "(string \<times> nat) list \<Rightarrow> (string \<times> nat) list" where
  "top_temas temas = take 10 (sort_key (\<lambda>x. - int (snd x)) temas)"

text \<open>\<open>a / b\<close> on floats raises \<open>ZeroDivisionError\<close> when \<open>b\<close> is zero.\<close>

definition py_div :: "py_runtime \<Rightarrow> real \<Rightarrow> real \<Rightarrow> py_error + real" where
  "py_div rt a b = (if b = 0 then Inl ZeroDivisionError else Inr (fl_div rt a b))"

text \<open>
  \<open>get_statistics\<close> (lines 120-165), reading the records in the heap. The empty
  collection takes the early return of line 123; the division of line 162 is reached on
  the other collections only. The mean is \<open>sum(...)\<close> over the confidences in the order of
  the collection, divided in float arithmetic by their number.
\<close>

definition get_statistics :: "py_runtime \<Rightarrow> unifier \<Rightarrow> heap \<Rightarrow> py_error + (string \<times> stat_val) list" where
  "get_statistics rt u h =
     (let xs = map h (unified_items u)
      in if unified_items u = [] then Inr [(''total'', SInt 0)]
         else
           and_then
             (py_div rt (fl_sum rt (map confianza xs)) (real (length xs)))
             (\<lambda>confianza_promedio. Inr
               [(''total_items'', SInt (length xs)),
                (''total_batches'', SInt (length (batches u))),
                (''distribucion_categorias'', SDist (count_by categoria xs [])),
                (''distribucion_niveles'', SDist (count_by nivel xs [])),
                (''distribucion_temas'',
                   SDist (top_temas (count_by tema (filter (\<lambda>item. tema item \<noteq> []) xs) []))),
                (''distribucion_idiomas'', SDist (count_by idioma xs [])),
                (''distribucion_origenes'', SOrigenes (count_origenes (batches u) [])),
                (''confianza_promedio'', SReal confianza_promedio)]))"

section \<open>The exporter\<close>

text \<open>
  \<open>ExportConfig\<close>. The field \<open>formato\<close> has the type
  \<open>Literal["csv", "json", "xlsx", "yaml"]\<close>: a closed enumeration, with \<open>formato_str\<close>
  the string each value is.
\<close>

datatype formato_t = Csv | Json | Xlsx | Yaml

fun formato_str :: "formato_t \<Rightarrow> string" where
  "formato_str Csv = ''csv''"
| "formato_str Json = ''json''"
| "formato_str Xlsx = ''xlsx''"
| "formato_str Yaml = ''yaml''"

record export_config =
  formato :: formato_t
  incluir_metadatos :: bool
  filtros :: "string \<rightharpoonup> py_val"
  ruta_salida :: "string option"
  nombre_archivo :: "string option"

text \<open>\<open>QAExporter.__init__\<close> (lines 170-171).\<close>

record exporter =
  supported_formats :: "string list"

definition new_exporter :: exporter where
  "new_exporter = \<lparr>supported_formats = [''csv'', ''json'', ''xlsx'', ''yaml'']\<rparr>"

text \<open>
  A cell of an export row: a string, or the number of \<open>confianza\<close>. A row is a dictionary
  from column names to cells, in insertion order.
\<close>

datatype cell = CStr string | CNum real

type_synonym row = "(string \<times> cell) list"

text \<open>\<open>sep.join(xs)\<close>.\<close>

fun join :: "string \<Rightarrow> string list \<Rightarrow> string" where
  "join sep [] = []"
| "join sep [x] = x"
| "join sep (x # y # ys) = x @ sep @ join sep (y # ys)"

text \<open>
  \<open>prepare_export_data\<close> (lines 173-199). The exporter only reads the records it is
  given, so it takes their states. \<open>str(value)\<close> on a metadata value is library
  code, the parameter \<open>str_of\<close>. The field \<open>fecha_creacion\<close> of the model holds the text
  \<open>isoformat()\<close> gives.
\<close>

definition export_row :: "(py_val \<Rightarrow> string) \<Rightarrow> bool \<Rightarrow> qa_item \<Rightarrow> row" where
  "export_row str_of include_metadata item =
     (let row =
        [(''id'', CStr (id_item item)),
         (''pregunta'', CStr (pregunta item)),
         (''respuesta'', CStr (respuesta item)),
         (''categoria'', CStr (categoria item)),
         (''nivel'', CStr (nivel item)),
         (''tema'', CStr (tema item)),
         (''idioma'', CStr (idioma item)),
         (''confianza'', CNum (confianza item)),
         (''fecha_creacion'', CStr (fecha_creacion item)),
         (''fuentes'', CStr (if fuentes item \<noteq> [] then join ''|'' (fuentes item) else [])),
         (''palabras_clave'',
            CStr (if palabras_clave item \<noteq> [] then join ''|'' (palabras_clave item) else []))]
      in if include_metadata \<and> metadatos item \<noteq> []
         then fold (\<lambda>(key, val) r. AList.update (''meta_'' @ key) (CStr (str_of val)) r)
                (metadatos item) row
         else row)"

definition prepare_export_data :: "(py_val \<Rightarrow> string) \<Rightarrow> qa_item list \<Rightarrow> bool \<Rightarrow> row list" where
  "prepare_export_data str_of xs include_metadata = map (export_row str_of include_metadata) xs"

text \<open>
  The file system: the files written so far, the directories made, and which paths can be
  made or opened for writing (\<open>mkdir\<close> and \<open>open\<close> raise \<open>OSError\<close> on the others).
  A CSV file is its header row and its data rows; a JSON file is the export structure.
\<close>

datatype file_content =
    CsvFile "string list" "cell list list"
  | JsonFile nat string string "row list"

record fs =
  files :: "string \<rightharpoonup> file_content"
  dirs :: "string list"
  mkdir_ok :: "string \<Rightarrow> bool"
  open_ok :: "string \<Rightarrow> bool"

datatype log_msg =
    WarningNoData
  | InfoCsv string nat
  | InfoJson string nat

text \<open>
  \<open>csv.DictWriter(csvfile, fieldnames=columns)\<close>: \<open>writeheader\<close> writes the field names,
  \<open>writerows\<close> one line per row with the cell of each field, the empty string where the
  row has none.
\<close>

definition dict_row :: "string list \<Rightarrow> row \<Rightarrow> cell list" where
  "dict_row columns r = map (\<lambda>c. case map_of r c of Some v \<Rightarrow> v | None \<Rightarrow> CStr []) columns"

text \<open>\<open>all_columns\<close> of \<open>export_to_csv\<close> (lines 210-214): the set of the keys of all rows,
  then sorted.\<close>

definition csv_columns :: "row list \<Rightarrow> string list" where
  "csv_columns data = sort (remdups (concat (map (map fst) data)))"

definition export_to_csv ::
    "(py_val \<Rightarrow> string) \<Rightarrow> qa_item list \<Rightarrow> string \<Rightarrow> bool \<Rightarrow> fs \<Rightarrow> py_error + (fs \<times> log_msg list)" where
  "export_to_csv str_of xs file_path include_metadata s =
     (let data = prepare_export_data str_of xs include_metadata
      in if data = [] then Inr (s, [WarningNoData])
         else
           let columns = csv_columns data
           in if \<not> open_ok s file_path then Inl OSError
              else Inr (s\<lparr>files := (files s)(file_path \<mapsto> CsvFile columns (map (dict_row columns) data))\<rparr>,
                        [InfoCsv file_path (length data)]))"

definition export_to_json ::
    "(py_val \<Rightarrow> string) \<Rightarrow> string \<Rightarrow> qa_item list \<Rightarrow> string \<Rightarrow> bool \<Rightarrow> fs
      \<Rightarrow> py_error + (fs \<times> log_msg list)" where
  "export_to_json str_of now_iso xs file_path include_metadata s =
     (let data = prepare_export_data str_of xs include_metadata
      in if \<not> open_ok s file_path then Inl OSError
         else Inr (s\<lparr>files := (files s)(file_path \<mapsto> JsonFile (length data) now_iso ''1.0'' data)\<rparr>,
                   [InfoJson file_path (length data)]))"

text \<open>
  What \<open>export\<close> reads from outside: \<open>settings.OUTPUT_DIR\<close>, the clock in the two formats
  used, \<open>pathlib\<close>'s \<open>/\<close> and \<open>.parent\<close>, and \<open>str\<close>.
\<close>

record env =
  OUTPUT_DIR :: string
  now_stamp :: string
  now_iso :: string
  path_join :: "string \<Rightarrow> string \<Rightarrow> string"
  path_parent :: "string \<Rightarrow> string"
  str_of :: "py_val \<Rightarrow> string"

text \<open>An optional string that is set and not empty (\<open>if config.ruta_salida:\<close>).\<close>

fun given :: "string option \<Rightarrow> bool" where
  "given None = False"
| "given (Some s) = (s \<noteq> [])"

text \<open>Lines 244-260 of \<open>export\<close>: the path of the file to write.\<close>

definition export_path :: "env \<Rightarrow> export_config \<Rightarrow> string" where
  "export_path e config =
     (let output_path = (if given (ruta_salida config) then the (ruta_salida config) else OUTPUT_DIR e);
          filename0 =
            (if given (nombre_archivo config) then the (nombre_archivo config)
             else ''qa_export_'' @ now_stamp e @ ''.'' @ formato_str (formato config));
          filename =
            (if \<not> suffix (''.'' @ formato_str (formato config)) filename0
             then filename0 @ ''.'' @ formato_str (formato config) else filename0)
      in path_join e output_path filename)"

text \<open>
  \<open>export\<close> (lines 241-271): the parent directory is made, then the format decides; the
  method returns the path. The result carries the new file system and the log as well.
\<close>

definition export ::
    "env \<Rightarrow> qa_item list \<Rightarrow> export_config \<Rightarrow> fs \<Rightarrow> py_error + (string \<times> fs \<times> log_msg list)" where
  "export e xs config s =
     (let full_path = export_path e config
      in if \<not> mkdir_ok s (path_parent e full_path) then Inl OSError
         else
           let s1 = s\<lparr>dirs := path_parent e full_path # dirs s\<rparr>
           in and_then
                (if formato_str (formato config) = ''csv''
                 then export_to_csv (str_of e) xs full_path (incluir_metadatos config) s1
                 else if formato_str (formato config) = ''json''
                 then export_to_json (str_of e) (now_iso e) xs full_path (incluir_metadatos config) s1
                 else Inl (ValueError (''Formato no soportado: '' @ formato_str (formato config))))
                (\<lambda>(s2, logs). Inr (full_path, s2, logs)))"

section \<open>The manager: \<open>add_data\<close>\<close>

text \<open>
  \<open>add_data\<close> inspects its argument at run time, so the argument is any Python value:
  a batch, a record (a reference to it), a list of values, or something else.
\<close>

datatype py_data = Batch qa_batch | Item ref | List "py_data list" | Other py_val

fun is_batch :: "py_data \<Rightarrow> bool" where
  "is_batch (Batch b) = True"
| "is_batch d = False"

fun is_item :: "py_data \<Rightarrow> bool" where
  "is_item (Item i) = True"
| "is_item d = False"

fun batches_of :: "py_data list \<Rightarrow> qa_batch list" where
  "batches_of [] = []"
| "batches_of (Batch b # ds) = b # batches_of ds"
| "batches_of (d # ds) = batches_of ds"

fun items_of :: "py_data list \<Rightarrow> ref list" where
  "items_of [] = []"
| "items_of (Item i # ds) = i # items_of ds"
| "items_of (d # ds) = items_of ds"

record manager =
  unifier :: unifier
  exporter :: exporter

definition new_manager :: manager where
  "new_manager = \<lparr>unifier = new_unifier, exporter = new_exporter\<rparr>"

text \<open>
  \<open>add_data\<close> (lines 280-296). \<open>fresh_id\<close> and \<open>now\<close> are what \<open>uuid4\<close> and the clock give
  the temporary batch, which holds the references of the list given. A list that is
  neither all batches nor all records reaches no branch of the inner \<open>if\<close>: the method
  returns without raising. No record is read or written, so the heap plays no part.
\<close>

definition add_data :: "string \<Rightarrow> string \<Rightarrow> py_data \<Rightarrow> manager \<Rightarrow> py_error + manager" where
  "add_data fresh_id now data m =
     (case data of
        Batch b \<Rightarrow> Inr (m\<lparr>unifier := add_batch b (unifier m)\<rparr>)
      | List ds \<Rightarrow>
          if list_all is_batch ds
          then Inr (m\<lparr>unifier := add_batches (batches_of ds) (unifier m)\<rparr>)
          else if list_all is_item ds
          then
            let temp_batch =
              \<lparr>id_batch = fresh_id, items = items_of ds, origen = Manual,
               prompt_original = None, documento_fuente = None,
               parametros_generacion = [(''added_manually'', PBool True)],
               estadisticas = [], fecha_creacion_batch = now\<rparr>
            in Inr (m\<lparr>unifier := add_batch temp_batch (unifier m)\<rparr>)
          else Inr m
      | _ \<Rightarrow> Inl (ValueError ''Tipo de datos no soportado''))"

section \<open>Construction of a record (\<open>QAItem\<close>)\<close>

text \<open>
  The keyword arguments of \<open>QAItem(...)\<close>; \<open>None\<close> is an argument left out, which takes
  the field's default. \<open>pregunta\<close> and \<open>respuesta\<close> are required.
\<close>

record qa_item_args =
  arg_id :: "string option"
  arg_pregunta :: string
  arg_respuesta :: string
  arg_categoria :: "string option"
  arg_nivel :: "string option"
  arg_tema :: "string option"
  arg_fuentes :: "string list option"
  arg_palabras_clave :: "string list option"
  arg_idioma :: "string option"
  arg_confianza :: "real option"
  arg_metadatos :: "(string \<times> py_val) list option"
  arg_fecha_creacion :: "string option"

text \<open>The three values of the \<open>Literal\<close> type of \<open>nivel\<close>: \<open>basico\<close> with an acute accent
  on its \<open>a\<close> (the code point 0xE1), \<open>intermedio\<close> and \<open>avanzado\<close>.\<close>

definition nivel_values :: "string list" where
  "nivel_values = [''b'' @ [char_of (225 :: nat)] @ ''sico'', ''intermedio'', ''avanzado'']"

text \<open>
  Pydantic validates each field's type and \<open>Field\<close> constraints (\<open>min_length\<close>, \<open>ge\<close>,
  \<open>le\<close>, the \<open>Literal\<close>) on the value given, and afterwards runs the field's
  \<open>@validator\<close> on the value that passed: \<open>clean_text\<close> on \<open>pregunta\<close> and
  \<open>respuesta\<close>, \<open>lowercase_category_theme\<close> on \<open>categoria\<close> and \<open>tema\<close>. A validator is
  not run on a default. Any failure makes the construction raise a validation error.
\<close>

definition clean_text :: "string \<Rightarrow> string" where
  "clean_text v = strip v"

definition lowercase_category_theme :: "string \<Rightarrow> string" where
  "lowercase_category_theme v = strip (lower v)"

definition QAItem :: "string \<Rightarrow> string \<Rightarrow> qa_item_args \<Rightarrow> py_error + qa_item" where
  "QAItem fresh_id now a =
     (if length (arg_pregunta a) < 10 then Inl ValidationError
      else if length (arg_respuesta a) < 20 then Inl ValidationError
      else if (case arg_nivel a of None \<Rightarrow> False | Some n \<Rightarrow> n \<notin> set nivel_values)
      then Inl ValidationError
      else if (case arg_confianza a of None \<Rightarrow> False | Some c \<Rightarrow> c < 0 \<or> c > 1)
      then Inl ValidationError
      else Inr
        \<lparr>id_item = (case arg_id a of None \<Rightarrow> fresh_id | Some i \<Rightarrow> i),
         pregunta = clean_text (arg_pregunta a),
         respuesta = clean_text (arg_respuesta a),
         categoria = (case arg_categoria a of None \<Rightarrow> ''general'' | Some c \<Rightarrow> lowercase_category_theme c),
         nivel = (case arg_nivel a of None \<Rightarrow> ''intermedio'' | Some n \<Rightarrow> n),
         tema = (case arg_tema a of None \<Rightarrow> [] | Some t \<Rightarrow> lowercase_category_theme t),
         fuentes = (case arg_fuentes a of None \<Rightarrow> [] | Some f \<Rightarrow> f),
         palabras_clave = (case arg_palabras_clave a of None \<Rightarrow> [] | Some k \<Rightarrow> k),
         idioma = (case arg_idioma a of None \<Rightarrow> ''es'' | Some l \<Rightarrow> l),
         confianza = (case arg_confianza a of None \<Rightarrow> 0.8 | Some c \<Rightarrow> c),
         metadatos = (case arg_metadatos a of None \<Rightarrow> [] | Some d \<Rightarrow> d),
         fecha_creacion = (case arg_fecha_creacion a of None \<Rightarrow> now | Some d \<Rightarrow> d)\<rparr>)"

section \<open>The filter constraints in the spec's words\<close>

text \<open>
  Section 4.3 of the spec: an absent or empty key is no constraint; \<open>category\<close> and
  \<open>level\<close> match exactly, case-insensitively; \<open>topic\<close> matches as a case-insensitive
  substring; \<open>minConfidence\<close> is an inclusive lower bound; all present constraints are
  ANDed. \<open>satisfies\<close> is that predicate on one record, for the four keys the code reads.
\<close>

definition satisfies :: "(string \<Rightarrow> real option) \<Rightarrow> (string \<rightharpoonup> py_val) \<Rightarrow> qa_item \<Rightarrow> bool" where
  "satisfies float_of_str filters item =
     ((case active_filter filters ''categoria'' of
         Some (PStr c) \<Rightarrow> lower (categoria item) = lower c | _ \<Rightarrow> True)
    \<and> (case active_filter filters ''nivel'' of
         Some (PStr n) \<Rightarrow> lower (nivel item) = lower n | _ \<Rightarrow> True)
    \<and> (case active_filter filters ''tema'' of
         Some (PStr t) \<Rightarrow> contains (lower t) (lower (tema item)) | _ \<Rightarrow> True)
    \<and> (case active_filter filters ''confianza_minima'' of
         Some v \<Rightarrow> (case py_float float_of_str v of Inr m \<Rightarrow> confianza item \<ge> m | Inl e \<Rightarrow> True)
       | None \<Rightarrow> True))"

text \<open>
  A filter mapping is well typed when each active text constraint is a string and the
  active confidence bound converts to a number.
\<close>

fun is_str :: "py_val \<Rightarrow> bool" where
  "is_str (PStr s) = True"
| "is_str v = False"

definition text_ok :: "(string \<rightharpoonup> py_val) \<Rightarrow> string \<Rightarrow> bool" where
  "text_ok filters key = (case active_filter filters key of None \<Rightarrow> True | Some v \<Rightarrow> is_str v)"

definition number_ok :: "(string \<Rightarrow> real option) \<Rightarrow> (string \<rightharpoonup> py_val) \<Rightarrow> bool" where
  "number_ok float_of_str filters =
     (case active_filter filters ''confianza_minima'' of
        None \<Rightarrow> True
      | Some v \<Rightarrow> (case py_float float_of_str v of Inr m \<Rightarrow> True | Inl e \<Rightarrow> False))"

definition well_typed :: "(string \<Rightarrow> real option) \<Rightarrow> (string \<rightharpoonup> py_val) \<Rightarrow> bool" where
  "well_typed float_of_str filters =
     (text_ok filters ''categoria'' \<and> text_ok filters ''nivel'' \<and> text_ok filters ''tema''
      \<and> number_ok float_of_str filters)"

text \<open>
  The keyword constraint of section 4.3: a record matches when its question or its answer
  contains one of the terms, case-insensitively.
\<close>

definition keyword_match :: "string list \<Rightarrow> qa_item \<Rightarrow> bool" where
  "keyword_match terms item =
     list_ex (\<lambda>t. contains (lower t) (lower (pregunta item))
                \<or> contains (lower t) (lower (respuesta item))) terms"

section \<open>Worked examples\<close>

text \<open>
  \<open>sample_item\<close> is a record with the given question, answer, sources and confidence and
  the defaults of \<open>QAItem\<close> elsewhere. \<open>heap_of xs\<close> is the heap with the records \<open>xs\<close>
  at the addresses 0, 1, ... (and an empty record at the others). \<open>same_text\<close> is a
  similarity ratio that is 1 on equal texts and 0 on others. \<open>exact_runtime\<close> adds, sums
  and divides exactly and lists a set in the order of first occurrence; the confidences
  of the examples (0.5, 0.75, 1) are floats on which float arithmetic is exact too.
\<close>

definition sample_item :: "string \<Rightarrow> string \<Rightarrow> string list \<Rightarrow> real \<Rightarrow> qa_item" where
  "sample_item q a srcs c =
     \<lparr>id_item = ''id-'' @ q, pregunta = q, respuesta = a, categoria = ''general'',
      nivel = ''intermedio'', tema = [], fuentes = srcs, palabras_clave = [], idioma = ''es'',
      confianza = c, metadatos = [], fecha_creacion = ''2024-01-01T00:00:00''\<rparr>"

definition heap_of :: "qa_item list \<Rightarrow> heap" where
  "heap_of xs r = (if r < length xs then xs ! r else sample_item [] [] [] 0)"

definition same_text :: "string \<Rightarrow> string \<Rightarrow> real" where
  "same_text a b = (if a = b then 1 else 0)"

definition exact_runtime :: py_runtime where
  "exact_runtime = \<lparr>fl_add = (+), fl_div = (/), fl_sum = sum_list, list_set = remdups\<rparr>"

text \<open>
  \<open>sample_env\<close> is an environment whose output directory is \<open>data/output\<close>, with paths
  joined by a slash; \<open>sample_fs ok\<close> is an empty file system in which every file can be
  opened and a directory can be made exactly when \<open>ok\<close> holds.
\<close>

definition sample_env :: env where
  "sample_env =
     \<lparr>OUTPUT_DIR = ''data/output'', now_stamp = ''20240101_000000'',
      now_iso = ''2024-01-01T00:00:00'', path_join = (\<lambda>a b. a @ ''/'' @ b),
      path_parent = (\<lambda>p. ''data/output''), str_of = (\<lambda>v. ''?'')\<rparr>"

definition sample_fs :: "bool \<Rightarrow> fs" where
  "sample_fs ok = \<lparr>files = Map.empty, dirs = [], mkdir_ok = (\<lambda>p. ok), open_ok = (\<lambda>p. True)\<rparr>"

lemmas text_eval = strip_def lower_def lower_char_def is_space_def char_of_def bit_Suc_0_iff

section \<open>Properties of the merge\<close>

lemma scan_merged_first_match:
  "scan_merged rt ratio th h item merged = Some h' \<Longrightarrow>
   \<exists>k<length merged. is_similar ratio th (h item) (h (merged ! k))
      \<and> (\<forall>j<k. \<not> is_similar ratio th (h item) (h (merged ! j)))
      \<and> h' = h(merged ! k := merge_fields rt (h (merged ! k)) (h item))"
proof (induction merged)
  case Nil
  then show ?case by simp
next
  case (Cons e rest)
  show ?case
  proof (cases "is_similar ratio th (h item) (h e)")
    case True
    with Cons.prems have "h' = h((e # rest) ! 0 := merge_fields rt (h ((e # rest) ! 0)) (h item))"
      by simp
    with True show ?thesis by (intro exI [of _ 0]) simp
  next
    case False
    with Cons.prems have "scan_merged rt ratio th h item rest = Some h'" by simp
    from Cons.IH [OF this] obtain k where k: "k < length rest"
      "is_similar ratio th (h item) (h (rest ! k))"
      "\<forall>j<k. \<not> is_similar ratio th (h item) (h (rest ! j))"
      "h' = h(rest ! k := merge_fields rt (h (rest ! k)) (h item))"
      by blast
    have "\<forall>j<Suc k. \<not> is_similar ratio th (h item) (h ((e # rest) ! j))"
      using False k(3) by (auto simp: less_Suc_eq_0_disj)
    with k show ?thesis by (intro exI [of _ "Suc k"]) simp
  qed
qed

lemma merge_loop_count:
  "merge_loop rt ratio th xs merged n h = (out, m, h')
   \<Longrightarrow> length out + m = length merged + n + length xs"
proof (induction xs arbitrary: merged n h)
  case Nil
  then show ?case by simp
next
  case (Cons item rest)
  show ?case
  proof (cases "scan_merged rt ratio th h item merged")
    case None
    with Cons.prems have "merge_loop rt ratio th rest (merged @ [item]) n h = (out, m, h')"
      by simp
    from Cons.IH [OF this] show ?thesis by simp
  next
    case (Some h1)
    with Cons.prems have "merge_loop rt ratio th rest merged (n + 1) h1 = (out, m, h')"
      by simp
    from Cons.IH [OF this] show ?thesis by simp
  qed
qed

lemma answer_test_exact:
  "(real m > real n * 1.2) = (5 * m > 6 * n)"
proof -
  have "(real m > real n * 1.2) = (real (5 * m) > real (6 * n))" by (simp add: field_simps)
  also have "\<dots> = (5 * m > 6 * n)" by (simp only: of_nat_less_iff)
  finally show ?thesis .
qed

lemma merge_fields_sets:
  assumes "sound_list_set rt"
  shows "set (fuentes (merge_fields rt e i)) = set (fuentes e) \<union> set (fuentes i)"
    and "distinct (fuentes (merge_fields rt e i))"
    and "set (palabras_clave (merge_fields rt e i)) = set (palabras_clave e) \<union> set (palabras_clave i)"
    and "distinct (palabras_clave (merge_fields rt e i))"
  using assms by (simp_all add: merge_fields_def sound_list_set_def)

lemma merge_fields_respuesta:
  "respuesta (merge_fields rt e i) =
     (if real (length (respuesta i)) > 1.2 * real (length (respuesta e))
      then respuesta i else respuesta e)"
  by (simp add: merge_fields_def mult.commute)

lemma merge_fields_confianza:
  "confianza (merge_fields rt e i) = fl_div rt (fl_add rt (confianza e) (confianza i)) 2"
  by (simp add: merge_fields_def)

lemma merge_fields_example:
  assumes "length (respuesta e) = 20"
  shows "length (respuesta i) = 24 \<Longrightarrow> respuesta (merge_fields rt e i) = respuesta e"
    and "length (respuesta i) = 25 \<Longrightarrow> respuesta (merge_fields rt e i) = respuesta i"
    and "length (respuesta i) = 30 \<Longrightarrow> respuesta (merge_fields rt e i) = respuesta i"
  using assms by (simp_all add: merge_fields_def)

lemma sound_exact_runtime: "sound_list_set exact_runtime"
  by (simp add: sound_list_set_def exact_runtime_def)

text \<open>
  Claim C1, as the code has it. When the scan finds the incoming record similar to a
  record already placed, the first such record (position \<open>k\<close>) is the one updated, in
  place, and no other record changes. On the updated record, sources and keywords are the
  duplicate-free union of both records' sources and keywords (in an order the runtime
  chooses); the answer is the incoming one when the incoming length exceeds 1.2 times the
  existing length and the existing one otherwise, so that against an existing answer of 20
  characters an incoming one of 24 is not taken and one of 25 or of 30 is; and the
  confidence is the float sum of both confidences divided by 2 in float arithmetic, which
  is their arithmetic mean whenever that sum and that division are exact.
\<close>

theorem merge_rule_on_existing_record:
  assumes "scan_merged rt ratio th h item merged = Some h'"
    and "sound_list_set rt"
  shows "\<exists>k<length merged.
           is_similar ratio th (h item) (h (merged ! k))
         \<and> (\<forall>j<k. \<not> is_similar ratio th (h item) (h (merged ! j)))
         \<and> (\<forall>r. r \<noteq> merged ! k \<longrightarrow> h' r = h r)
         \<and> set (fuentes (h' (merged ! k)))
             = set (fuentes (h (merged ! k))) \<union> set (fuentes (h item))
         \<and> distinct (fuentes (h' (merged ! k)))
         \<and> set (palabras_clave (h' (merged ! k)))
             = set (palabras_clave (h (merged ! k))) \<union> set (palabras_clave (h item))
         \<and> distinct (palabras_clave (h' (merged ! k)))
         \<and> respuesta (h' (merged ! k))
             = (if real (length (respuesta (h item)))
                     > 1.2 * real (length (respuesta (h (merged ! k))))
                then respuesta (h item) else respuesta (h (merged ! k)))
         \<and> (length (respuesta (h (merged ! k))) = 20 \<and> length (respuesta (h item)) = 24
              \<longrightarrow> respuesta (h' (merged ! k)) = respuesta (h (merged ! k)))
         \<and> (length (respuesta (h (merged ! k))) = 20 \<and> length (respuesta (h item)) = 25
              \<longrightarrow> respuesta (h' (merged ! k)) = respuesta (h item))
         \<and> (length (respuesta (h (merged ! k))) = 20 \<and> length (respuesta (h item)) = 30
              \<longrightarrow> respuesta (h' (merged ! k)) = respuesta (h item))
         \<and> confianza (h' (merged ! k))
             = fl_div rt (fl_add rt (confianza (h (merged ! k))) (confianza (h item))) 2
         \<and> (fl_add rt (confianza (h (merged ! k))) (confianza (h item))
               = confianza (h (merged ! k)) + confianza (h item)
             \<and> fl_div rt (confianza (h (merged ! k)) + confianza (h item)) 2
               = (confianza (h (merged ! k)) + confianza (h item)) / 2
              \<longrightarrow> confianza (h' (merged ! k))
                    = (confianza (h (merged ! k)) + confianza (h item)) / 2)"
proof -
  from scan_merged_first_match [OF assms(1)] obtain k where k: "k < length merged"
    and sim: "is_similar ratio th (h item) (h (merged ! k))"
    and first: "\<forall>j<k. \<not> is_similar ratio th (h item) (h (merged ! j))"
    and m: "h' = h(merged ! k := merge_fields rt (h (merged ! k)) (h item))"
    by blast
  from m have at_k: "h' (merged ! k) = merge_fields rt (h (merged ! k)) (h item)" by simp
  from m have frame: "\<forall>r. r \<noteq> merged ! k \<longrightarrow> h' r = h r" by simp
  note sets = merge_fields_sets [OF assms(2), of "h (merged ! k)" "h item"]
  have c1: "set (fuentes (h' (merged ! k)))
      = set (fuentes (h (merged ! k))) \<union> set (fuentes (h item))"
    unfolding at_k by (rule sets(1))
  have c2: "distinct (fuentes (h' (merged ! k)))"
    unfolding at_k by (rule sets(2))
  have c3: "set (palabras_clave (h' (merged ! k)))
      = set (palabras_clave (h (merged ! k))) \<union> set (palabras_clave (h item))"
    unfolding at_k by (rule sets(3))
  have c4: "distinct (palabras_clave (h' (merged ! k)))"
    unfolding at_k by (rule sets(4))
  have c5: "respuesta (h' (merged ! k))
      = (if real (length (respuesta (h item))) > 1.2 * real (length (respuesta (h (merged ! k))))
         then respuesta (h item) else respuesta (h (merged ! k)))"
    unfolding at_k by (rule merge_fields_respuesta)
  have ex24: "length (respuesta (h (merged ! k))) = 20 \<and> length (respuesta (h item)) = 24
      \<longrightarrow> respuesta (h' (merged ! k)) = respuesta (h (merged ! k))"
    unfolding at_k using merge_fields_example(1) by blast
  have ex25: "length (respuesta (h (merged ! k))) = 20 \<and> length (respuesta (h item)) = 25
      \<longrightarrow> respuesta (h' (merged ! k)) = respuesta (h item)"
    unfolding at_k using merge_fields_example(2) by blast
  have ex30: "length (respuesta (h (merged ! k))) = 20 \<and> length (respuesta (h item)) = 30
      \<longrightarrow> respuesta (h' (merged ! k)) = respuesta (h item)"
    unfolding at_k using merge_fields_example(3) by blast
  have c6: "confianza (h' (merged ! k))
      = fl_div rt (fl_add rt (confianza (h (merged ! k))) (confianza (h item))) 2"
    unfolding at_k by (rule merge_fields_confianza)
  have mean: "fl_add rt (confianza (h (merged ! k))) (confianza (h item))
               = confianza (h (merged ! k)) + confianza (h item)
             \<and> fl_div rt (confianza (h (merged ! k)) + confianza (h item)) 2
               = (confianza (h (merged ! k)) + confianza (h item)) / 2
              \<longrightarrow> confianza (h' (merged ! k))
                    = (confianza (h (merged ! k)) + confianza (h item)) / 2"
    unfolding c6 by simp
  show ?thesis
    by (rule exI [of _ k])
      (intro conjI k sim first frame c1 c2 c3 c4 c5 ex24 ex25 ex30 c6 mean)
qed

text \<open>
  Claim C1 as the spec states it fails at its own example: against an existing answer of
  20 characters, an incoming answer of 25 characters is taken (25 exceeds 20 * 1.2 = 24).
\<close>

theorem answer_of_25_replaces_answer_of_20:
  "length ''12345678901234567890'' = 20
   \<and> length ''1234567890123456789012345'' = 25
   \<and> map_option (\<lambda>h'. respuesta (h' 0))
       (scan_merged exact_runtime same_text (4/5)
          (heap_of [sample_item ''Que es Python?'' ''12345678901234567890'' [] 1,
                    sample_item ''Que es Python?'' ''1234567890123456789012345'' [] 1])
          1 [0])
      = Some ''1234567890123456789012345''"
  by (simp add: heap_of_def sample_item_def same_text_def is_similar_def merge_fields_def
      exact_runtime_def text_eval)

theorem merge_rule_on_existing_record_witness:
  "(\<exists>h'. scan_merged exact_runtime same_text (4/5)
            (heap_of [sample_item ''Otra pregunta distinta'' ''Una respuesta distinta.'' [] 1,
                      sample_item ''Que es python?'' ''12345678901234567890'' [''a.pdf''] (1/2),
                      sample_item ''Que es Python?'' ''123456789012345678901234567890''
                        [''b.pdf''] 1])
            2 [0, 1] = Some h'
      \<and> set (fuentes (h' 1)) = {''a.pdf'', ''b.pdf''}
      \<and> respuesta (h' 1) = ''123456789012345678901234567890''
      \<and> confianza (h' 1) = 3/4
      \<and> respuesta (h' 0) = ''Una respuesta distinta.'')"
proof -
  define H where "H = heap_of
     [sample_item ''Otra pregunta distinta'' ''Una respuesta distinta.'' [] 1,
      sample_item ''Que es python?'' ''12345678901234567890'' [''a.pdf''] (1/2),
      sample_item ''Que es Python?'' ''123456789012345678901234567890'' [''b.pdf''] 1]"
  have H0: "H 0 = sample_item ''Otra pregunta distinta'' ''Una respuesta distinta.'' [] 1"
    and H1: "H 1 = sample_item ''Que es python?'' ''12345678901234567890'' [''a.pdf''] (1/2)"
    and H2: "H 2 = sample_item ''Que es Python?'' ''123456789012345678901234567890'' [''b.pdf''] 1"
    by (simp_all add: H_def heap_of_def)
  have sim0: "\<not> is_similar same_text (4/5) (H 2) (H 0)"
    unfolding H0 H2 by (simp add: sample_item_def same_text_def is_similar_def text_eval)
  have sim1: "is_similar same_text (4/5) (H 2) (H 1)"
    unfolding H1 H2 by (simp add: sample_item_def same_text_def is_similar_def text_eval)
  from sim0 sim1 obtain h' where s: "scan_merged exact_runtime same_text (4/5) H 2 [0, 1] = Some h'"
    by (simp add: numeral_2_eq_2)
  from merge_rule_on_existing_record [OF s sound_exact_runtime] obtain k
    where k: "k < length [0::nat, 1]"
      and sk: "is_similar same_text (4/5) (H 2) (H ([0, 1] ! k))"
      and fr: "\<forall>r. r \<noteq> [0, 1] ! k \<longrightarrow> h' r = H r"
      and fu: "set (fuentes (h' ([0, 1] ! k)))
                 = set (fuentes (H ([0, 1] ! k))) \<union> set (fuentes (H 2))"
      and re: "respuesta (h' ([0, 1] ! k))
             = (if real (length (respuesta (H 2)))
                     > 1.2 * real (length (respuesta (H ([0, 1] ! k))))
                then respuesta (H 2) else respuesta (H ([0, 1] ! k)))"
      and co: "confianza (h' ([0, 1] ! k))
             = fl_div exact_runtime
                 (fl_add exact_runtime (confianza (H ([0, 1] ! k))) (confianza (H 2))) 2"
    by blast
  have k1: "k = 1"
  proof (cases k)
    case 0
    with sk sim0 show ?thesis by simp
  next
    case (Suc n)
    with k show ?thesis by simp
  qed
  have at: "[0::nat, 1] ! k = 1" unfolding k1 by simp
  have "set (fuentes (h' 1)) = {''a.pdf'', ''b.pdf''}"
    using fu unfolding at H1 H2 by (simp add: sample_item_def insert_commute)
  moreover have "respuesta (h' 1) = ''123456789012345678901234567890''"
    using re unfolding at H1 H2 by (simp add: sample_item_def)
  moreover have "confianza (h' 1) = 3/4"
    using co unfolding at H1 H2 by (simp add: sample_item_def exact_runtime_def)
  moreover have "respuesta (h' 0) = ''Una respuesta distinta.''"
    using fr unfolding at H0 by (simp add: H0 sample_item_def)
  ultimately show ?thesis using s unfolding H_def by blast
qed

text \<open>
  Claim C6. The merge never makes the collection longer, and the count it returns is the
  length of the collection before minus the length after.
\<close>

theorem merge_count_is_length_reduction:
  "length (unified_items (fst (merge_similar_items rt ratio th u h))) \<le> length (unified_items u)
   \<and> snd (snd (merge_similar_items rt ratio th u h))
       = length (unified_items u)
         - length (unified_items (fst (merge_similar_items rt ratio th u h)))"
proof -
  obtain out m h' where r: "merge_loop rt ratio th (unified_items u) [] 0 h = (out, m, h')"
    by (cases "merge_loop rt ratio th (unified_items u) [] 0 h") auto
  from merge_loop_count [OF r] have "length out + m = length (unified_items u)" by simp
  with r show ?thesis by (simp add: merge_similar_items_def)
qed

theorem merge_count_is_length_reduction_witness:
  "unified_items (fst (merge_similar_items exact_runtime same_text (4/5)
      \<lparr>batches = [], unified_items = [0, 1, 2, 0]\<rparr>
      (heap_of [sample_item ''Que es Python?'' ''Python es un lenguaje.'' [''a.pdf''] 1,
                sample_item ''Otra pregunta distinta'' ''Una respuesta distinta.'' [] 1,
                sample_item ''que es python?'' ''Un lenguaje de programacion.'' [''b.pdf'']
                  (1/2)]))) = [0, 1]
   \<and> snd (snd (merge_similar_items exact_runtime same_text (4/5)
      \<lparr>batches = [], unified_items = [0, 1, 2, 0]\<rparr>
      (heap_of [sample_item ''Que es Python?'' ''Python es un lenguaje.'' [''a.pdf''] 1,
                sample_item ''Otra pregunta distinta'' ''Una respuesta distinta.'' [] 1,
                sample_item ''que es python?'' ''Un lenguaje de programacion.'' [''b.pdf'']
                  (1/2)]))) = 2"
proof -
  let ?u = "\<lparr>batches = [], unified_items = [0, 1, 2, 0]\<rparr>"
  let ?H = "heap_of [sample_item ''Que es Python?'' ''Python es un lenguaje.'' [''a.pdf''] 1,
                sample_item ''Otra pregunta distinta'' ''Una respuesta distinta.'' [] 1,
                sample_item ''que es python?'' ''Un lenguaje de programacion.'' [''b.pdf'']
                  (1/2)]"
  have n: "unified_items (fst (merge_similar_items exact_runtime same_text (4/5) ?u ?H)) = [0, 1]"
    by (simp add: merge_similar_items_def heap_of_def sample_item_def same_text_def
        is_similar_def merge_fields_def exact_runtime_def text_eval)
  from merge_count_is_length_reduction [of exact_runtime same_text "4/5" ?u ?H] n
  show ?thesis by simp
qed

text \<open>
  The records are shared: a merge updates the record a batch holds, and a record ingested
  twice is met the second time in the state the first merge left. Here the collection is
  the record at address 0 twice, after a batch that holds it: the merge counts one
  duplicate and halves the float sum of the confidence with itself.
\<close>

lemma merge_updates_shared_record:
  "merge_similar_items rt same_text (4/5)
      \<lparr>batches = [b\<lparr>items := [0]\<rparr>], unified_items = [0, 0]\<rparr> h
   = (\<lparr>batches = [b\<lparr>items := [0]\<rparr>], unified_items = [0]\<rparr>,
      h(0 := merge_fields rt (h 0) (h 0)), 1)"
  by (simp add: merge_similar_items_def is_similar_def same_text_def)


section \<open>Properties of the filter\<close>

lemma by_categoria_eq:
  "by_categoria filters h xs =
     (if text_ok filters ''categoria''
      then Inr (filter (\<lambda>r. case active_filter filters ''categoria'' of
                  Some (PStr c) \<Rightarrow> lower (categoria (h r)) = lower c | _ \<Rightarrow> True) xs)
      else Inl AttributeError)"
proof (cases "active_filter filters ''categoria''")
  case None
  then show ?thesis by (simp add: by_categoria_def text_ok_def)
next
  case (Some v)
  then show ?thesis by (cases v) (simp_all add: by_categoria_def text_ok_def and_then_def)
qed

lemma by_nivel_eq:
  "by_nivel filters h xs =
     (if text_ok filters ''nivel''
      then Inr (filter (\<lambda>r. case active_filter filters ''nivel'' of
                  Some (PStr n) \<Rightarrow> lower (nivel (h r)) = lower n | _ \<Rightarrow> True) xs)
      else Inl AttributeError)"
proof (cases "active_filter filters ''nivel''")
  case None
  then show ?thesis by (simp add: by_nivel_def text_ok_def)
next
  case (Some v)
  then show ?thesis by (cases v) (simp_all add: by_nivel_def text_ok_def and_then_def)
qed

lemma by_tema_eq:
  "by_tema filters h xs =
     (if text_ok filters ''tema''
      then Inr (filter (\<lambda>r. case active_filter filters ''tema'' of
                  Some (PStr t) \<Rightarrow> contains (lower t) (lower (tema (h r))) | _ \<Rightarrow> True) xs)
      else Inl AttributeError)"
proof (cases "active_filter filters ''tema''")
  case None
  then show ?thesis by (simp add: by_tema_def text_ok_def)
next
  case (Some v)
  then show ?thesis by (cases v) (simp_all add: by_tema_def text_ok_def and_then_def)
qed

lemma by_confianza_minima_ok:
  assumes "number_ok fos filters"
  shows "by_confianza_minima fos filters h xs =
     Inr (filter (\<lambda>r. case active_filter filters ''confianza_minima'' of
            Some v \<Rightarrow> (case py_float fos v of Inr m \<Rightarrow> confianza (h r) \<ge> m | Inl e \<Rightarrow> True)
          | None \<Rightarrow> True) xs)"
proof (cases "active_filter filters ''confianza_minima''")
  case None
  then show ?thesis by (simp add: by_confianza_minima_def)
next
  case (Some v)
  with assms obtain m where "py_float fos v = Inr m"
    by (auto simp: number_ok_def split: sum.splits)
  with Some show ?thesis by (simp add: by_confianza_minima_def and_then_def)
qed

lemma by_confianza_minima_raises:
  assumes "\<not> number_ok fos filters"
  shows "\<exists>e. by_confianza_minima fos filters h xs = Inl e"
proof (cases "active_filter filters ''confianza_minima''")
  case None
  with assms show ?thesis by (simp add: number_ok_def)
next
  case (Some v)
  with assms obtain e where "py_float fos v = Inl e"
    by (auto simp: number_ok_def split: sum.splits)
  with Some show ?thesis by (simp add: by_confianza_minima_def and_then_def)
qed

lemma filter_items_well_typed:
  assumes "well_typed fos filters"
  shows "filter_items fos filters u h
           = Inr (filter (\<lambda>r. satisfies fos filters (h r)) (unified_items u))"
proof -
  from assms have ok: "text_ok filters ''categoria''" "text_ok filters ''nivel''"
    "text_ok filters ''tema''" "number_ok fos filters"
    by (simp_all add: well_typed_def)
  have sat: "(\<lambda>r. satisfies fos filters (h r)) = (\<lambda>r.
       (case active_filter filters ''categoria'' of
          Some (PStr c) \<Rightarrow> lower (categoria (h r)) = lower c | _ \<Rightarrow> True)
     \<and> (case active_filter filters ''nivel'' of
          Some (PStr n) \<Rightarrow> lower (nivel (h r)) = lower n | _ \<Rightarrow> True)
     \<and> (case active_filter filters ''tema'' of
          Some (PStr t) \<Rightarrow> contains (lower t) (lower (tema (h r))) | _ \<Rightarrow> True)
     \<and> (case active_filter filters ''confianza_minima'' of
          Some v \<Rightarrow> (case py_float fos v of Inr m \<Rightarrow> confianza (h r) \<ge> m | Inl e \<Rightarrow> True)
        | None \<Rightarrow> True))"
    by (rule ext) (simp add: satisfies_def)
  show ?thesis
    unfolding filter_items_def by_categoria_eq by_nivel_eq by_tema_eq
      by_confianza_minima_ok [OF ok(4)] sat
    using ok(1-3) by (simp add: and_then_def conj_commute conj_left_commute)
qed

lemma filter_items_ill_typed:
  assumes "\<not> well_typed fos filters"
  shows "\<exists>e. filter_items fos filters u h = Inl e"
proof -
  from by_confianza_minima_raises
  have "\<not> number_ok fos filters \<Longrightarrow> \<exists>e. by_confianza_minima fos filters h xs = Inl e" for xs
    by blast
  with assms show ?thesis
    unfolding filter_items_def by_categoria_eq by_nivel_eq by_tema_eq well_typed_def
    by (auto simp: and_then_def)
qed

lemma well_typed_empty: "well_typed fos Map.empty"
  by (simp add: well_typed_def text_ok_def number_ok_def active_filter_def)

lemma satisfies_empty: "satisfies fos Map.empty item"
  by (simp add: satisfies_def active_filter_def)

lemma map_filter_heap: "map h (filter (\<lambda>r. P (h r)) xs) = filter P (map h xs)"
  by (induction xs) simp_all

text \<open>
  Claim C5. Filtering with the empty mapping returns the collection itself, in content and
  order. For every filter mapping, a result the filter returns is the list of the records
  of the collection that satisfy all active constraints, in their original order: a
  subsequence of the collection, as a list of references and as the list of the records'
  states. The filter returns a result exactly on the well-typed mappings (on the others an
  exception is raised).
\<close>

theorem filter_items_ordered_subsequence:
  "filter_items fos Map.empty u h = Inr (unified_items u)
   \<and> (\<forall>ys. filter_items fos filters u h = Inr ys
         \<longrightarrow> ys = filter (\<lambda>r. satisfies fos filters (h r)) (unified_items u)
           \<and> subseq ys (unified_items u)
           \<and> map h ys = filter (satisfies fos filters) (map h (unified_items u))
           \<and> subseq (map h ys) (map h (unified_items u)))
   \<and> ((\<exists>ys. filter_items fos filters u h = Inr ys) \<longleftrightarrow> well_typed fos filters)"
proof -
  have a: "filter_items fos Map.empty u h = Inr (unified_items u)"
    using filter_items_well_typed [OF well_typed_empty, of fos u h]
    by (simp add: satisfies_empty)
  have c: "(\<exists>ys. filter_items fos filters u h = Inr ys) \<longleftrightarrow> well_typed fos filters"
    using filter_items_well_typed [of fos filters u h] filter_items_ill_typed [of fos filters u h]
    by (cases "well_typed fos filters") auto
  have b: "ys = filter (\<lambda>r. satisfies fos filters (h r)) (unified_items u)
           \<and> subseq ys (unified_items u)
           \<and> map h ys = filter (satisfies fos filters) (map h (unified_items u))
           \<and> subseq (map h ys) (map h (unified_items u))"
    if "filter_items fos filters u h = Inr ys" for ys
  proof -
    from that c have "well_typed fos filters" by blast
    from filter_items_well_typed [OF this, of u h] that
    have ys: "ys = filter (\<lambda>r. satisfies fos filters (h r)) (unified_items u)" by simp
    then have m: "map h ys = filter (satisfies fos filters) (map h (unified_items u))"
      by (simp only: map_filter_heap)
    from ys have "subseq ys (unified_items u)" by simp
    moreover from m have "subseq (map h ys) (map h (unified_items u))" by simp
    ultimately show ?thesis using ys m by blast
  qed
  from a b c show ?thesis by blast
qed

theorem filter_items_ordered_subsequence_witness:
  "filter_items Map.empty [''categoria'' \<mapsto> PStr ''General'', ''confianza_minima'' \<mapsto> PNum (7/10)]
      \<lparr>batches = [], unified_items = [0, 1, 2]\<rparr>
      (heap_of [sample_item ''Que es Python?'' ''Python es un lenguaje.'' [] 1,
                sample_item ''Que es un bucle?'' ''Una repeticion de pasos.'' [] (1/2),
                sample_item ''Que es una lista?'' ''Una secuencia de valores.'' [] (3/4)])
     = Inr [0, 2]
   \<and> subseq [0, 2] [0, 1, 2::nat]
   \<and> well_typed Map.empty [''categoria'' \<mapsto> PStr ''General'', ''confianza_minima'' \<mapsto> PNum (7/10)]"
proof -
  let ?f = "[''categoria'' \<mapsto> PStr ''General'', ''confianza_minima'' \<mapsto> PNum (7/10)]"
  let ?u = "\<lparr>batches = [], unified_items = [0, 1, 2]\<rparr>"
  let ?H = "heap_of [sample_item ''Que es Python?'' ''Python es un lenguaje.'' [] 1,
                sample_item ''Que es un bucle?'' ''Una repeticion de pasos.'' [] (1/2),
                sample_item ''Que es una lista?'' ''Una secuencia de valores.'' [] (3/4)]"
  have h: "filter_items Map.empty ?f ?u ?H = Inr [0, 2]"
    by (simp add: filter_items_def by_categoria_def by_nivel_def by_tema_def
        by_confianza_minima_def active_filter_def and_then_def heap_of_def sample_item_def
        text_eval)
  from filter_items_ordered_subsequence [of Map.empty ?u ?H ?f] h
  have "subseq [0, 2] (unified_items ?u)" "well_typed Map.empty ?f" by blast+
  with h show ?thesis by simp
qed

lemma active_filter_other_key:
  "k \<noteq> key \<Longrightarrow> active_filter (filters(k := v)) key = active_filter filters key"
  by (simp add: active_filter_def)

text \<open>
  Claim C2, as the code has it. The filter reads the keys \<open>categoria\<close>, \<open>nivel\<close>,
  \<open>tema\<close> and \<open>confianza_minima\<close> only. An entry under any other key, a keyword list
  under \<open>palabras_clave\<close> or \<open>keywords\<close> included, places no constraint: setting,
  changing or removing it leaves the result of the filter as it is.
\<close>

theorem filter_items_ignores_other_keys:
  assumes "k \<notin> {''categoria'', ''nivel'', ''tema'', ''confianza_minima''}"
  shows "filter_items fos (filters(k := v)) u h = filter_items fos filters u h"
  using assms
  by (simp add: filter_items_def by_categoria_def by_nivel_def by_tema_def
      by_confianza_minima_def active_filter_other_key)

theorem filter_items_ignores_other_keys_witness:
  "filter_items Map.empty [''categoria'' \<mapsto> PStr ''General'', ''palabras_clave'' \<mapsto> PList [''bucle'']]
      \<lparr>batches = [], unified_items = [0, 1]\<rparr>
      (heap_of [sample_item ''Que es Python?'' ''Python es un lenguaje.'' [] 1,
                sample_item ''Que es un bucle?'' ''Una repeticion de pasos.'' [] (1/2)])
   = filter_items Map.empty [''categoria'' \<mapsto> PStr ''General'']
      \<lparr>batches = [], unified_items = [0, 1]\<rparr>
      (heap_of [sample_item ''Que es Python?'' ''Python es un lenguaje.'' [] 1,
                sample_item ''Que es un bucle?'' ''Una repeticion de pasos.'' [] (1/2)])"
proof -
  have "''palabras_clave'' \<notin> {''categoria'', ''nivel'', ''tema'', ''confianza_minima''}"
    by simp
  from filter_items_ignores_other_keys [OF this] show ?thesis by simp
qed

text \<open>
  Claim C2 as the spec states it fails: with the keyword list \<open>["python"]\<close> under
  \<open>palabras_clave\<close>, the filter returns both records of a collection whose second record
  has the term neither in its question nor in its answer.
\<close>

theorem keywords_filter_keeps_unmatched_record:
  "filter_items Map.empty [''palabras_clave'' \<mapsto> PList [''python'']]
      \<lparr>batches = [], unified_items = [0, 1]\<rparr>
      (heap_of [sample_item ''Que es Python?'' ''Python es un lenguaje.'' [] 1,
                sample_item ''Que es un bucle?'' ''Una repeticion de pasos.'' [] 1])
     = Inr [0, 1]
   \<and> \<not> keyword_match [''python'']
          (heap_of [sample_item ''Que es Python?'' ''Python es un lenguaje.'' [] 1,
                    sample_item ''Que es un bucle?'' ''Una repeticion de pasos.'' [] 1] 1)"
  by (simp add: filter_items_def by_categoria_def by_nivel_def by_tema_def
      by_confianza_minima_def active_filter_def and_then_def keyword_match_def
      heap_of_def sample_item_def text_eval)

section \<open>Properties of the statistics\<close>

text \<open>
  Claim C3, as the code has it. The statistics never raise: on the empty collection the
  result is the mapping with the single entry \<open>total = 0\<close>, which reports no mean
  confidence; on every other collection the entry \<open>confianza_promedio\<close> is \<open>sum\<close> of the
  records' confidences divided by their number in float arithmetic, next to
  \<open>total_items\<close>, their number. That value is the arithmetic mean of the confidences
  whenever the float sum and the float division are exact.
\<close>

theorem get_statistics_mean_confidence:
  "(\<exists>stats. get_statistics rt u h = Inr stats)
   \<and> (unified_items u = [] \<longrightarrow> get_statistics rt u h = Inr [(''total'', SInt 0)])
   \<and> (unified_items u \<noteq> [] \<longrightarrow>
        (\<exists>stats. get_statistics rt u h = Inr stats
           \<and> map_of stats ''total_items'' = Some (SInt (length (unified_items u)))
           \<and> map_of stats ''confianza_promedio''
               = Some (SReal (fl_div rt (fl_sum rt (map confianza (map h (unified_items u))))
                                (real (length (unified_items u)))))
           \<and> (fl_sum rt (map confianza (map h (unified_items u)))
                 = sum_list (map confianza (map h (unified_items u)))
               \<and> fl_div rt (sum_list (map confianza (map h (unified_items u))))
                    (real (length (unified_items u)))
                 = sum_list (map confianza (map h (unified_items u)))
                   / real (length (unified_items u))
                \<longrightarrow> map_of stats ''confianza_promedio''
                     = Some (SReal (sum_list (map confianza (map h (unified_items u)))
                                    / real (length (unified_items u)))))))"
proof (cases "unified_items u = []")
  case True
  then show ?thesis by (simp add: get_statistics_def)
next
  case False
  then have "real (length (unified_items u)) \<noteq> 0" by simp
  with False show ?thesis
    by (simp add: get_statistics_def py_div_def and_then_def Let_def)
qed

theorem get_statistics_mean_confidence_witness:
  "(\<exists>stats. get_statistics exact_runtime \<lparr>batches = [], unified_items = [0, 1]\<rparr>
       (heap_of [sample_item ''Que es Python?'' ''Python es un lenguaje.'' [] (1/2),
                 sample_item ''Que es un bucle?'' ''Una repeticion de pasos.'' [] 1])
       = Inr stats
      \<and> map_of stats ''total_items'' = Some (SInt 2)
      \<and> map_of stats ''confianza_promedio'' = Some (SReal (3/4)))
   \<and> get_statistics exact_runtime \<lparr>batches = [], unified_items = []\<rparr> (heap_of [])
       = Inr [(''total'', SInt 0)]"
proof -
  let ?u = "\<lparr>batches = [], unified_items = [0, 1]\<rparr>"
  let ?H = "heap_of [sample_item ''Que es Python?'' ''Python es un lenguaje.'' [] (1/2),
                 sample_item ''Que es un bucle?'' ''Una repeticion de pasos.'' [] 1]"
  have ne: "unified_items ?u \<noteq> []" by simp
  have e: "unified_items \<lparr>batches = [], unified_items = []\<rparr> = []" by simp
  from get_statistics_mean_confidence [of exact_runtime ?u ?H] ne
  obtain stats where "get_statistics exact_runtime ?u ?H = Inr stats"
    "map_of stats ''total_items'' = Some (SInt (length (unified_items ?u)))"
    "map_of stats ''confianza_promedio''
       = Some (SReal (fl_div exact_runtime
                        (fl_sum exact_runtime (map confianza (map ?H (unified_items ?u))))
                        (real (length (unified_items ?u)))))"
    by blast
  then have "\<exists>stats. get_statistics exact_runtime ?u ?H = Inr stats
      \<and> map_of stats ''total_items'' = Some (SInt 2)
      \<and> map_of stats ''confianza_promedio'' = Some (SReal (3/4))"
    by (intro exI [of _ stats]) (simp add: heap_of_def sample_item_def exact_runtime_def)
  moreover from get_statistics_mean_confidence
      [of exact_runtime "\<lparr>batches = [], unified_items = []\<rparr>" "heap_of []"] e
  have "get_statistics exact_runtime \<lparr>batches = [], unified_items = []\<rparr> (heap_of [])
      = Inr [(''total'', SInt 0)]"
    by blast
  ultimately show ?thesis by blast
qed

text \<open>
  Claim C3 as the spec states it fails: the statistics of the empty collection hold no
  mean confidence (the key \<open>confianza_promedio\<close> is absent), so none equal to 0 is reported.
\<close>

theorem empty_statistics_report_no_mean:
  "get_statistics exact_runtime new_unifier (heap_of []) = Inr [(''total'', SInt 0)]
   \<and> map_of [(''total'', SInt 0)] ''confianza_promedio'' = None
   \<and> map_of [(''total'', SInt 0)] ''confianza_promedio'' \<noteq> Some (SReal 0)"
  by (simp add: get_statistics_def new_unifier_def)

section \<open>Properties of \<open>add_data\<close>\<close>

text \<open>
  Claim C4 at a list that mixes a batch and a record: \<open>add_data\<close> raises nothing and
  returns the manager as it was, so the input is dropped without an error. A value that is
  neither a batch nor a list does raise \<open>ValueError\<close>.
\<close>

theorem add_data_mixed_list_is_dropped_silently:
  "add_data fresh_id now (List [Batch b, Item i]) m = Inr m
   \<and> add_data fresh_id now (Other v) m = Inl (ValueError ''Tipo de datos no soportado'')"
  by (simp add: add_data_def)

section \<open>Properties of the construction of a record\<close>

lemma lower_char_idem: "lower_char (lower_char c) = lower_char c"
proof -
  have lt: "(of_char c :: nat) < 256" by (cases c) simp
  show ?thesis
    unfolding lower_char_def Let_def using lt
    by (auto simp: of_char_of)
qed

lemma lower_idem: "lower (lower s) = lower s"
  by (simp add: lower_def lower_char_idem)

lemma set_strip: "set (strip s) \<subseteq> set s"
  unfolding strip_def
  by (metis set_dropWhileD set_rev subsetI)

lemma lower_strip_lower: "lower (strip (lower s)) = strip (lower s)"
proof -
  have "\<forall>c \<in> set (strip (lower s)). lower_char c = c"
    using set_strip [of "lower s"] by (auto simp: lower_def lower_char_idem)
  then show ?thesis by (simp add: lower_def map_idI)
qed

lemma dropWhile_idem: "dropWhile P (dropWhile P xs) = dropWhile P xs"
  by (induction xs) auto

lemma strip_idem: "strip (strip s) = strip s"
proof -
  define t where "t = dropWhile is_space s"
  define u where "u = rev (dropWhile is_space (rev t))"
  have parts: "t = u @ rev (takeWhile is_space (rev t))"
  proof -
    have "rev (takeWhile is_space (rev t) @ dropWhile is_space (rev t)) = rev (rev t)"
      by (simp only: takeWhile_dropWhile_id)
    then show ?thesis by (simp only: rev_append rev_rev_ident u_def)
  qed
  have front: "dropWhile is_space u = u"
  proof (cases "u = []")
    case True
    then show ?thesis by simp
  next
    case False
    from False have "hd (u @ rev (takeWhile is_space (rev t))) = hd u" by simp
    with parts have "hd u = hd t" by simp
    moreover from False parts have "t \<noteq> []" by (cases t) auto
    moreover from \<open>t \<noteq> []\<close> have "\<not> is_space (hd t)"
      unfolding t_def by (rule hd_dropWhile)
    ultimately show ?thesis by (simp add: dropWhile_eq_self_iff)
  qed
  have rear: "dropWhile is_space (rev u) = rev u"
    by (simp add: u_def dropWhile_idem)
  have "strip u = u" by (simp add: strip_def front rear)
  moreover have "strip s = u" by (simp add: strip_def u_def t_def)
  ultimately show ?thesis by simp
qed

lemma nivel_values_normal: "\<forall>n \<in> set nivel_values. lower n = n \<and> strip n = n"
  by (simp add: nivel_values_def text_eval)

lemma QAItem_succeeds_iff:
  "(\<exists>r. QAItem fresh_id now a = Inr r) \<longleftrightarrow>
     (length (arg_pregunta a) \<ge> 10 \<and> length (arg_respuesta a) \<ge> 20
      \<and> (case arg_nivel a of None \<Rightarrow> True | Some n \<Rightarrow> n \<in> set nivel_values)
      \<and> (case arg_confianza a of None \<Rightarrow> True | Some c \<Rightarrow> 0 \<le> c \<and> c \<le> 1))"
  by (auto simp: QAItem_def split: option.splits)

lemma QAItem_fields:
  assumes "QAItem fresh_id now a = Inr r"
  shows "pregunta r = strip (arg_pregunta a)"
    and "respuesta r = strip (arg_respuesta a)"
    and "categoria r = (case arg_categoria a of None \<Rightarrow> ''general'' | Some c \<Rightarrow> strip (lower c))"
    and "tema r = (case arg_tema a of None \<Rightarrow> [] | Some t \<Rightarrow> strip (lower t))"
    and "nivel r = (case arg_nivel a of None \<Rightarrow> ''intermedio'' | Some n \<Rightarrow> n)"
    and "idioma r = (case arg_idioma a of None \<Rightarrow> ''es'' | Some l \<Rightarrow> l)"
proof -
  from assms have r: "r =
        \<lparr>id_item = (case arg_id a of None \<Rightarrow> fresh_id | Some i \<Rightarrow> i),
         pregunta = clean_text (arg_pregunta a),
         respuesta = clean_text (arg_respuesta a),
         categoria = (case arg_categoria a of None \<Rightarrow> ''general'' | Some c \<Rightarrow> lowercase_category_theme c),
         nivel = (case arg_nivel a of None \<Rightarrow> ''intermedio'' | Some n \<Rightarrow> n),
         tema = (case arg_tema a of None \<Rightarrow> [] | Some t \<Rightarrow> lowercase_category_theme t),
         fuentes = (case arg_fuentes a of None \<Rightarrow> [] | Some f \<Rightarrow> f),
         palabras_clave = (case arg_palabras_clave a of None \<Rightarrow> [] | Some k \<Rightarrow> k),
         idioma = (case arg_idioma a of None \<Rightarrow> ''es'' | Some l \<Rightarrow> l),
         confianza = (case arg_confianza a of None \<Rightarrow> 0.8 | Some c \<Rightarrow> c),
         metadatos = (case arg_metadatos a of None \<Rightarrow> [] | Some d \<Rightarrow> d),
         fecha_creacion = (case arg_fecha_creacion a of None \<Rightarrow> now | Some d \<Rightarrow> d)\<rparr>"
    unfolding QAItem_def by (simp split: if_splits)
  show "pregunta r = strip (arg_pregunta a)" by (subst r) (simp add: clean_text_def)
  show "respuesta r = strip (arg_respuesta a)" by (subst r) (simp add: clean_text_def)
  show "categoria r = (case arg_categoria a of None \<Rightarrow> ''general'' | Some c \<Rightarrow> strip (lower c))"
    by (subst r) (simp add: lowercase_category_theme_def split: option.split)
  show "tema r = (case arg_tema a of None \<Rightarrow> [] | Some t \<Rightarrow> strip (lower t))"
    by (subst r) (simp add: lowercase_category_theme_def split: option.split)
  show "nivel r = (case arg_nivel a of None \<Rightarrow> ''intermedio'' | Some n \<Rightarrow> n)"
    by (subst r) simp
  show "idioma r = (case arg_idioma a of None \<Rightarrow> ''es'' | Some l \<Rightarrow> l)"
    by (subst r) simp
qed

text \<open>
  Claim C7, as the code has it. On a successful construction, \<open>categoria\<close> and \<open>tema\<close>
  are the given values lower-cased and trimmed (the defaults when none is given), so the
  stored values are unchanged by lower-casing and by trimming. \<open>nivel\<close> is one of the
  three literal values, stored as given; these are lower-case and trimmed already.
  \<open>idioma\<close> is stored exactly as given (\<open>es\<close> when none is given): it is not normalized.
\<close>

theorem QAItem_normalizes_category_and_topic:
  assumes "QAItem fresh_id now a = Inr r"
  shows "categoria r = (case arg_categoria a of None \<Rightarrow> ''general'' | Some c \<Rightarrow> strip (lower c))
       \<and> tema r = (case arg_tema a of None \<Rightarrow> [] | Some t \<Rightarrow> strip (lower t))
       \<and> lower (categoria r) = categoria r \<and> strip (categoria r) = categoria r
       \<and> lower (tema r) = tema r \<and> strip (tema r) = tema r
       \<and> nivel r \<in> set nivel_values
       \<and> lower (nivel r) = nivel r \<and> strip (nivel r) = nivel r
       \<and> idioma r = (case arg_idioma a of None \<Rightarrow> ''es'' | Some l \<Rightarrow> l)"
proof -
  note f = QAItem_fields [OF assms]
  have general: "lower ''general'' = ''general''" "strip ''general'' = ''general''"
    by (simp_all add: text_eval)
  have empty: "lower [] = []" "strip [] = []"
    by (simp_all add: text_eval)
  have cat: "lower (categoria r) = categoria r \<and> strip (categoria r) = categoria r"
    unfolding f(3) using general
    by (cases "arg_categoria a") (simp_all add: lower_strip_lower strip_idem)
  have tem: "lower (tema r) = tema r \<and> strip (tema r) = tema r"
    unfolding f(4) using empty
    by (cases "arg_tema a") (simp_all add: lower_strip_lower strip_idem)
  from assms have "\<exists>r. QAItem fresh_id now a = Inr r" by blast
  then have "case arg_nivel a of None \<Rightarrow> True | Some n \<Rightarrow> n \<in> set nivel_values"
    unfolding QAItem_succeeds_iff by blast
  then have niv: "nivel r \<in> set nivel_values"
    unfolding f(5) by (cases "arg_nivel a") (simp_all add: nivel_values_def)
  with nivel_values_normal have "lower (nivel r) = nivel r \<and> strip (nivel r) = nivel r"
    by blast
  with cat tem niv f(3,4,6) show ?thesis by blast
qed

theorem QAItem_normalizes_category_and_topic_witness:
  "QAItem ''id-1'' ''2024-01-01T00:00:00''
      \<lparr>arg_id = None, arg_pregunta = ''Que es Python?'',
       arg_respuesta = ''Python es un lenguaje.'', arg_categoria = Some ''  Programacion '',
       arg_nivel = Some ''avanzado'', arg_tema = Some ''Tipos De DATOS'', arg_fuentes = None,
       arg_palabras_clave = None, arg_idioma = Some ''EN'', arg_confianza = None,
       arg_metadatos = None, arg_fecha_creacion = None\<rparr>
     = Inr \<lparr>id_item = ''id-1'', pregunta = ''Que es Python?'',
            respuesta = ''Python es un lenguaje.'', categoria = ''programacion'',
            nivel = ''avanzado'', tema = ''tipos de datos'', fuentes = [], palabras_clave = [],
            idioma = ''EN'', confianza = 4/5, metadatos = [],
            fecha_creacion = ''2024-01-01T00:00:00''\<rparr>
   \<and> lower ''programacion'' = ''programacion'' \<and> strip ''programacion'' = ''programacion''
   \<and> ''avanzado'' \<in> set nivel_values"
proof -
  let ?a = "\<lparr>arg_id = None, arg_pregunta = ''Que es Python?'',
       arg_respuesta = ''Python es un lenguaje.'', arg_categoria = Some ''  Programacion '',
       arg_nivel = Some ''avanzado'', arg_tema = Some ''Tipos De DATOS'', arg_fuentes = None,
       arg_palabras_clave = None, arg_idioma = Some ''EN'', arg_confianza = None,
       arg_metadatos = None, arg_fecha_creacion = None\<rparr>"
  let ?r = "\<lparr>id_item = ''id-1'', pregunta = ''Que es Python?'',
            respuesta = ''Python es un lenguaje.'', categoria = ''programacion'',
            nivel = ''avanzado'', tema = ''tipos de datos'', fuentes = [], palabras_clave = [],
            idioma = ''EN'', confianza = 4/5, metadatos = [],
            fecha_creacion = ''2024-01-01T00:00:00''\<rparr>"
  have h: "QAItem ''id-1'' ''2024-01-01T00:00:00'' ?a = Inr ?r"
    by (simp add: QAItem_def nivel_values_def clean_text_def lowercase_category_theme_def
        text_eval)
  from QAItem_normalizes_category_and_topic [OF h]
  have "lower (categoria ?r) = categoria ?r" "strip (categoria ?r) = categoria ?r"
    "nivel ?r \<in> set nivel_values"
    by blast+
  with h show ?thesis by simp
qed

text \<open>
  Claim C7 as the spec states it fails for the language tag: a record constructed with the
  language \<open>" EN "\<close> stores \<open>" EN "\<close>, which is neither lower-case nor trimmed.
\<close>

theorem QAItem_keeps_language_as_given:
  "QAItem ''id-1'' ''2024-01-01T00:00:00''
      \<lparr>arg_id = None, arg_pregunta = ''Que es Python?'',
       arg_respuesta = ''Python es un lenguaje.'', arg_categoria = None,
       arg_nivel = None, arg_tema = None, arg_fuentes = None,
       arg_palabras_clave = None, arg_idioma = Some '' EN '', arg_confianza = None,
       arg_metadatos = None, arg_fecha_creacion = None\<rparr>
     = Inr \<lparr>id_item = ''id-1'', pregunta = ''Que es Python?'',
            respuesta = ''Python es un lenguaje.'', categoria = ''general'',
            nivel = ''intermedio'', tema = [], fuentes = [], palabras_clave = [],
            idioma = '' EN '', confianza = 4/5, metadatos = [],
            fecha_creacion = ''2024-01-01T00:00:00''\<rparr>
   \<and> strip (lower '' EN '') = ''en''
   \<and> lower '' EN '' \<noteq> '' EN ''
   \<and> strip '' EN '' \<noteq> '' EN ''"
  by (simp add: QAItem_def nivel_values_def clean_text_def text_eval)

text \<open>
  Claim C10. The construction succeeds exactly when the question and the answer as given
  have at least 10 and 20 characters (and the level and the confidence are valid); the
  stored question and answer are the given ones trimmed afterwards. So there is an input,
  a question of 10 characters of which 6 are surrounding blanks, on which the construction
  succeeds and stores a question of fewer than 10 characters.
\<close>

theorem QAItem_checks_length_before_trimming:
  "((\<exists>r. QAItem fresh_id now a = Inr r) \<longleftrightarrow>
      (length (arg_pregunta a) \<ge> 10 \<and> length (arg_respuesta a) \<ge> 20
       \<and> (case arg_nivel a of None \<Rightarrow> True | Some n \<Rightarrow> n \<in> set nivel_values)
       \<and> (case arg_confianza a of None \<Rightarrow> True | Some c \<Rightarrow> 0 \<le> c \<and> c \<le> 1)))
   \<and> (\<forall>r. QAItem fresh_id now a = Inr r
         \<longrightarrow> pregunta r = strip (arg_pregunta a) \<and> respuesta r = strip (arg_respuesta a))
   \<and> (\<exists>b r. QAItem fresh_id now b = Inr r
         \<and> length (arg_pregunta b) \<ge> 10 \<and> length (pregunta r) < 10)"
proof -
  let ?b = "\<lparr>arg_id = None, arg_pregunta = ''   Que?   '',
       arg_respuesta = ''Python es un lenguaje.'', arg_categoria = None,
       arg_nivel = None, arg_tema = None, arg_fuentes = None,
       arg_palabras_clave = None, arg_idioma = None, arg_confianza = None,
       arg_metadatos = None, arg_fecha_creacion = None\<rparr>"
  have "\<exists>r. QAItem fresh_id now ?b = Inr r"
    unfolding QAItem_succeeds_iff by simp
  then obtain r where r: "QAItem fresh_id now ?b = Inr r" by blast
  from QAItem_fields(1) [OF r] have "pregunta r = ''Que?''"
    by (simp add: text_eval)
  with r have "QAItem fresh_id now ?b = Inr r
      \<and> length (arg_pregunta ?b) \<ge> 10 \<and> length (pregunta r) < 10"
    by simp
  then have ex: "\<exists>b r. QAItem fresh_id now b = Inr r
      \<and> length (arg_pregunta b) \<ge> 10 \<and> length (pregunta r) < 10"
    by blast
  from QAItem_succeeds_iff [of fresh_id now a] QAItem_fields(1,2) [of fresh_id now a] ex
  show ?thesis by blast
qed

theorem QAItem_checks_length_before_trimming_witness:
  "QAItem ''id-1'' ''2024-01-01T00:00:00''
      \<lparr>arg_id = None, arg_pregunta = ''   Que?   '',
       arg_respuesta = ''Python es un lenguaje.'', arg_categoria = None,
       arg_nivel = None, arg_tema = None, arg_fuentes = None,
       arg_palabras_clave = None, arg_idioma = None, arg_confianza = None,
       arg_metadatos = None, arg_fecha_creacion = None\<rparr>
     = Inr \<lparr>id_item = ''id-1'', pregunta = ''Que?'',
            respuesta = ''Python es un lenguaje.'', categoria = ''general'',
            nivel = ''intermedio'', tema = [], fuentes = [], palabras_clave = [],
            idioma = ''es'', confianza = 4/5, metadatos = [],
            fecha_creacion = ''2024-01-01T00:00:00''\<rparr>
   \<and> length ''   Que?   '' = 10
   \<and> strip ''   Que?   '' = ''Que?''
   \<and> length ''Que?'' = 4"
proof -
  let ?b = "\<lparr>arg_id = None, arg_pregunta = ''   Que?   '',
       arg_respuesta = ''Python es un lenguaje.'', arg_categoria = None,
       arg_nivel = None, arg_tema = None, arg_fuentes = None,
       arg_palabras_clave = None, arg_idioma = None, arg_confianza = None,
       arg_metadatos = None, arg_fecha_creacion = None\<rparr>"
  let ?r = "\<lparr>id_item = ''id-1'', pregunta = ''Que?'',
            respuesta = ''Python es un lenguaje.'', categoria = ''general'',
            nivel = ''intermedio'', tema = [], fuentes = [], palabras_clave = [],
            idioma = ''es'', confianza = 4/5, metadatos = [],
            fecha_creacion = ''2024-01-01T00:00:00''\<rparr>"
  have h: "QAItem ''id-1'' ''2024-01-01T00:00:00'' ?b = Inr ?r"
    by (simp add: QAItem_def clean_text_def text_eval)
  from QAItem_checks_length_before_trimming [of "''id-1''" "''2024-01-01T00:00:00''" ?b] h
  have "pregunta ?r = strip (arg_pregunta ?b)" by blast
  then have "strip ''   Que?   '' = ''Que?''" by simp
  with h show ?thesis by simp
qed

section \<open>Properties of the exporter\<close>

lemma csv_columns_props:
  "set (csv_columns data) = (\<Union>r \<in> set data. fst ` set r)"
  "sorted (csv_columns data)"
  "distinct (csv_columns data)"
  by (auto simp: csv_columns_def)

lemma prepare_export_data_empty:
  "prepare_export_data sof xs md = [] \<longleftrightarrow> xs = []"
  by (simp add: prepare_export_data_def)

lemma prepare_export_data_length:
  "length (prepare_export_data sof xs md) = length xs"
  by (simp add: prepare_export_data_def)

text \<open>
  Claim C8. On an empty record list \<open>export_to_csv\<close> returns without an error, with the
  file system as it was (no file is written) and the warning logged. On a non-empty list,
  when the file can be opened, the file written has as its header the column list, which
  holds exactly the keys of all projected rows, each once, sorted in the lexicographic
  order of strings, and has one line per record.
\<close>

theorem export_to_csv_header_and_columns:
  "(xs = [] \<longrightarrow> export_to_csv sof xs file_path md s = Inr (s, [WarningNoData]))
   \<and> (xs \<noteq> [] \<and> open_ok s file_path \<longrightarrow>
        (\<exists>columns lines.
            export_to_csv sof xs file_path md s
              = Inr (s\<lparr>files := (files s)(file_path \<mapsto> CsvFile columns lines)\<rparr>,
                     [InfoCsv file_path (length xs)])
          \<and> set columns = (\<Union>r \<in> set (prepare_export_data sof xs md). fst ` set r)
          \<and> sorted columns \<and> distinct columns
          \<and> lines = map (dict_row columns) (prepare_export_data sof xs md)
          \<and> length lines = length xs))
   \<and> (xs \<noteq> [] \<and> \<not> open_ok s file_path \<longrightarrow> export_to_csv sof xs file_path md s = Inl OSError)"
proof -
  let ?data = "prepare_export_data sof xs md"
  have a: "xs = [] \<longrightarrow> export_to_csv sof xs file_path md s = Inr (s, [WarningNoData])"
    by (simp add: export_to_csv_def prepare_export_data_def)
  have c: "xs \<noteq> [] \<and> \<not> open_ok s file_path \<longrightarrow> export_to_csv sof xs file_path md s = Inl OSError"
    by (simp add: export_to_csv_def prepare_export_data_empty)
  have b: "\<exists>columns lines.
            export_to_csv sof xs file_path md s
              = Inr (s\<lparr>files := (files s)(file_path \<mapsto> CsvFile columns lines)\<rparr>,
                     [InfoCsv file_path (length xs)])
          \<and> set columns = (\<Union>r \<in> set ?data. fst ` set r)
          \<and> sorted columns \<and> distinct columns
          \<and> lines = map (dict_row columns) ?data
          \<and> length lines = length xs"
    if "xs \<noteq> []" "open_ok s file_path"
  proof (intro exI conjI)
    show "export_to_csv sof xs file_path md s
        = Inr (s\<lparr>files := (files s)(file_path \<mapsto>
                  CsvFile (csv_columns ?data) (map (dict_row (csv_columns ?data)) ?data))\<rparr>,
               [InfoCsv file_path (length xs)])"
      using that
      by (simp add: export_to_csv_def Let_def prepare_export_data_empty
          prepare_export_data_length)
    show "set (csv_columns ?data) = (\<Union>r \<in> set ?data. fst ` set r)"
      by (rule csv_columns_props)
    show "sorted (csv_columns ?data)" by (rule csv_columns_props)
    show "distinct (csv_columns ?data)" by (rule csv_columns_props)
    show "map (dict_row (csv_columns ?data)) ?data = map (dict_row (csv_columns ?data)) ?data"
      by (rule refl)
    show "length (map (dict_row (csv_columns ?data)) ?data) = length xs"
      by (simp add: prepare_export_data_length)
  qed
  from a b c show ?thesis by blast
qed

theorem export_to_csv_header_and_columns_witness:
  "(case export_to_csv (\<lambda>v. case v of PStr t \<Rightarrow> t | _ \<Rightarrow> ''?'')
           [(sample_item ''Que es Python?'' ''Python es un lenguaje.'' [''a.pdf'', ''b.pdf''] 1)
              \<lparr>metadatos := [(''autor'', PStr ''ana'')]\<rparr>,
            sample_item ''Que es un bucle?'' ''Una repeticion de pasos.'' [] (1/2)]
           ''out.csv'' True
           \<lparr>files = Map.empty, dirs = [], mkdir_ok = (\<lambda>p. True), open_ok = (\<lambda>p. True)\<rparr>
    of Inr (s', logs) \<Rightarrow> files s' ''out.csv'' | Inl e \<Rightarrow> None)
     = Some (CsvFile
         [''categoria'', ''confianza'', ''fecha_creacion'', ''fuentes'', ''id'', ''idioma'',
          ''meta_autor'', ''nivel'', ''palabras_clave'', ''pregunta'', ''respuesta'', ''tema'']
         [[CStr ''general'', CNum 1, CStr ''2024-01-01T00:00:00'', CStr ''a.pdf|b.pdf'',
           CStr ''id-Que es Python?'', CStr ''es'', CStr ''ana'', CStr ''intermedio'', CStr [],
           CStr ''Que es Python?'', CStr ''Python es un lenguaje.'', CStr []],
          [CStr ''general'', CNum (1/2), CStr ''2024-01-01T00:00:00'', CStr [],
           CStr ''id-Que es un bucle?'', CStr ''es'', CStr [], CStr ''intermedio'', CStr [],
           CStr ''Que es un bucle?'', CStr ''Una repeticion de pasos.'', CStr []]])
   \<and> sorted [''categoria'', ''confianza'', ''fecha_creacion'', ''fuentes'', ''id'', ''idioma'',
          ''meta_autor'', ''nivel'', ''palabras_clave'', ''pregunta'', ''respuesta'', ''tema'']
   \<and> export_to_csv (\<lambda>v. case v of PStr t \<Rightarrow> t | _ \<Rightarrow> ''?'') [] ''out.csv'' True
         \<lparr>files = Map.empty, dirs = [], mkdir_ok = (\<lambda>p. True), open_ok = (\<lambda>p. True)\<rparr>
       = Inr (\<lparr>files = Map.empty, dirs = [], mkdir_ok = (\<lambda>p. True), open_ok = (\<lambda>p. True)\<rparr>,
              [WarningNoData])"
proof -
  let ?sof = "\<lambda>v. case v of PStr t \<Rightarrow> t | _ \<Rightarrow> ''?''"
  let ?xs = "[(sample_item ''Que es Python?'' ''Python es un lenguaje.'' [''a.pdf'', ''b.pdf''] 1)
              \<lparr>metadatos := [(''autor'', PStr ''ana'')]\<rparr>,
            sample_item ''Que es un bucle?'' ''Una repeticion de pasos.'' [] (1/2)]"
  let ?s = "\<lparr>files = Map.empty, dirs = [], mkdir_ok = (\<lambda>p. True), open_ok = (\<lambda>p. True)\<rparr>"
  let ?cols = "[''categoria'', ''confianza'', ''fecha_creacion'', ''fuentes'', ''id'', ''idioma'',
          ''meta_autor'', ''nivel'', ''palabras_clave'', ''pregunta'', ''respuesta'', ''tema'']"
  have cols: "csv_columns (prepare_export_data ?sof ?xs True) = ?cols"
    by (simp add: csv_columns_def prepare_export_data_def export_row_def sample_item_def)
  have rows: "map (dict_row ?cols) (prepare_export_data ?sof ?xs True) =
         [[CStr ''general'', CNum 1, CStr ''2024-01-01T00:00:00'', CStr ''a.pdf|b.pdf'',
           CStr ''id-Que es Python?'', CStr ''es'', CStr ''ana'', CStr ''intermedio'', CStr [],
           CStr ''Que es Python?'', CStr ''Python es un lenguaje.'', CStr []],
          [CStr ''general'', CNum (1/2), CStr ''2024-01-01T00:00:00'', CStr [],
           CStr ''id-Que es un bucle?'', CStr ''es'', CStr [], CStr ''intermedio'', CStr [],
           CStr ''Que es un bucle?'', CStr ''Una repeticion de pasos.'', CStr []]]"
    by (simp add: dict_row_def prepare_export_data_def export_row_def sample_item_def)
  have ne: "?xs \<noteq> [] \<and> open_ok ?s ''out.csv''" by simp
  from export_to_csv_header_and_columns [of ?xs ?sof "''out.csv''" True ?s] ne
  obtain columns lines where r: "export_to_csv ?sof ?xs ''out.csv'' True ?s
              = Inr (?s\<lparr>files := (files ?s)(''out.csv'' \<mapsto> CsvFile columns lines)\<rparr>,
                     [InfoCsv ''out.csv'' (length ?xs)])"
    and s: "sorted columns"
    by blast
  have written: "(case export_to_csv ?sof ?xs ''out.csv'' True ?s
      of Inr (s', logs) \<Rightarrow> files s' ''out.csv'' | Inl e \<Rightarrow> None)
     = Some (CsvFile ?cols (map (dict_row ?cols) (prepare_export_data ?sof ?xs True)))"
    unfolding cols [symmetric]
    by (simp add: export_to_csv_def Let_def prepare_export_data_def)
  then have eq: "columns = ?cols" unfolding r by simp
  from export_to_csv_header_and_columns [of "[]" ?sof "''out.csv''" True ?s]
  have "export_to_csv ?sof [] ''out.csv'' True ?s = Inr (?s, [WarningNoData])" by blast
  with written s eq show ?thesis unfolding rows by blast
qed

lemma export_to_csv_no_value_error:
  "export_to_csv sof xs file_path md s \<noteq> Inl (ValueError msg)"
  by (simp add: export_to_csv_def Let_def)

lemma export_to_json_no_value_error:
  "export_to_json sof stamp xs file_path md s \<noteq> Inl (ValueError msg)"
  by (simp add: export_to_json_def Let_def)

lemma export_value_error_iff:
  "(\<exists>msg. export e xs config s = Inl (ValueError msg)) \<longleftrightarrow>
     (mkdir_ok s (path_parent e (export_path e config))
      \<and> formato config \<noteq> Csv \<and> formato config \<noteq> Json)"
proof (cases "formato config")
  case Csv
  then show ?thesis
    using export_to_csv_no_value_error
    by (auto simp: export_def Let_def and_then_def split: sum.splits)
next
  case Json
  then show ?thesis
    using export_to_json_no_value_error
    by (auto simp: export_def Let_def and_then_def split: sum.splits)
next
  case Xlsx
  then show ?thesis by (simp add: export_def Let_def and_then_def)
next
  case Yaml
  then show ?thesis by (simp add: export_def Let_def and_then_def)
qed

lemma export_unsupported_message:
  assumes "mkdir_ok s (path_parent e (export_path e config))"
    and "formato config \<noteq> Csv" and "formato config \<noteq> Json"
  shows "export e xs config s
           = Inl (ValueError (''Formato no soportado: '' @ formato_str (formato config)))"
  using assms by (cases "formato config") (simp_all add: export_def Let_def and_then_def)

lemma export_mkdir_fails:
  assumes "\<not> mkdir_ok s (path_parent e (export_path e config))"
  shows "export e xs config s = Inl OSError"
  using assms by (simp add: export_def Let_def)

text \<open>
  Claim C9, as the code has it. \<open>export\<close> writes the formats \<open>csv\<close> and \<open>json\<close>. It
  makes the parent directory of the output path first and checks the format afterwards:
  it raises the unsupported-format error (\<open>ValueError\<close>, "Formato no soportado") exactly
  when the directory could be made and the format is neither \<open>csv\<close> nor \<open>json\<close>; when
  the directory cannot be made it raises the I/O error whatever the format. On \<open>csv\<close>
  and \<open>json\<close> the unsupported-format error is never raised.
\<close>

theorem export_unsupported_format_error:
  "((\<exists>msg. export e xs config s = Inl (ValueError msg)) \<longleftrightarrow>
      (mkdir_ok s (path_parent e (export_path e config))
       \<and> formato config \<noteq> Csv \<and> formato config \<noteq> Json))
   \<and> (mkdir_ok s (path_parent e (export_path e config))
       \<and> formato config \<noteq> Csv \<and> formato config \<noteq> Json
        \<longrightarrow> export e xs config s
              = Inl (ValueError (''Formato no soportado: '' @ formato_str (formato config))))
   \<and> (\<not> mkdir_ok s (path_parent e (export_path e config))
        \<longrightarrow> export e xs config s = Inl OSError)
   \<and> (formato config = Csv \<or> formato config = Json
        \<longrightarrow> (\<forall>msg. export e xs config s \<noteq> Inl (ValueError msg)))"
proof -
  have a: "(\<exists>msg. export e xs config s = Inl (ValueError msg)) \<longleftrightarrow>
      (mkdir_ok s (path_parent e (export_path e config))
       \<and> formato config \<noteq> Csv \<and> formato config \<noteq> Json)"
    by (rule export_value_error_iff)
  have b: "mkdir_ok s (path_parent e (export_path e config))
       \<and> formato config \<noteq> Csv \<and> formato config \<noteq> Json
        \<longrightarrow> export e xs config s
              = Inl (ValueError (''Formato no soportado: '' @ formato_str (formato config)))"
    using export_unsupported_message by blast
  have c: "\<not> mkdir_ok s (path_parent e (export_path e config))
        \<longrightarrow> export e xs config s = Inl OSError"
    using export_mkdir_fails by blast
  have d: "formato config = Csv \<or> formato config = Json
        \<longrightarrow> (\<forall>msg. export e xs config s \<noteq> Inl (ValueError msg))"
    using a by blast
  from a b c d show ?thesis by blast
qed

theorem export_unsupported_format_error_witness:
  "export sample_env []
      \<lparr>formato = Yaml, incluir_metadatos = True, filtros = Map.empty, ruta_salida = None,
       nombre_archivo = Some ''informe''\<rparr> (sample_fs True)
     = Inl (ValueError ''Formato no soportado: yaml'')
   \<and> export sample_env []
      \<lparr>formato = Json, incluir_metadatos = True, filtros = Map.empty, ruta_salida = None,
       nombre_archivo = Some ''informe''\<rparr> (sample_fs False)
     = Inl OSError
   \<and> export sample_env []
      \<lparr>formato = Csv, incluir_metadatos = True, filtros = Map.empty, ruta_salida = None,
       nombre_archivo = Some ''informe''\<rparr> (sample_fs True)
     \<noteq> Inl (ValueError ''Formato no soportado: csv'')"
proof -
  let ?y = "\<lparr>formato = Yaml, incluir_metadatos = True, filtros = Map.empty, ruta_salida = None,
       nombre_archivo = Some ''informe''\<rparr>"
  let ?j = "\<lparr>formato = Json, incluir_metadatos = True, filtros = Map.empty, ruta_salida = None,
       nombre_archivo = Some ''informe''\<rparr>"
  let ?c = "\<lparr>formato = Csv, incluir_metadatos = True, filtros = Map.empty, ruta_salida = None,
       nombre_archivo = Some ''informe''\<rparr>"
  have y: "mkdir_ok (sample_fs True) (path_parent sample_env (export_path sample_env ?y))
       \<and> formato ?y \<noteq> Csv \<and> formato ?y \<noteq> Json"
    by (simp add: sample_fs_def)
  have j: "\<not> mkdir_ok (sample_fs False) (path_parent sample_env (export_path sample_env ?j))"
    by (simp add: sample_fs_def)
  have c: "formato ?c = Csv \<or> formato ?c = Json" by simp
  from export_unsupported_format_error [of sample_env "[]" ?y "sample_fs True"] y
  have "export sample_env [] ?y (sample_fs True)
      = Inl (ValueError (''Formato no soportado: '' @ formato_str (formato ?y)))"
    by blast
  moreover from export_unsupported_format_error [of sample_env "[]" ?j "sample_fs False"] j
  have "export sample_env [] ?j (sample_fs False) = Inl OSError" by blast
  moreover from export_unsupported_format_error [of sample_env "[]" ?c "sample_fs True"] c
  have "export sample_env [] ?c (sample_fs True) \<noteq> Inl (ValueError ''Formato no soportado: csv'')"
    by blast
  ultimately show ?thesis by simp
qed

text \<open>
  Claim C9 as the spec states it fails where the output directory cannot be made: the
  format \<open>xlsx\<close> is not one \<open>export\<close> writes, and the export fails with the I/O error,
  not with the unsupported-format error.
\<close>

theorem export_xlsx_fails_with_io_error:
  "export sample_env []
      \<lparr>formato = Xlsx, incluir_metadatos = True, filtros = Map.empty, ruta_salida = None,
       nombre_archivo = Some ''informe''\<rparr> (sample_fs False)
     = Inl OSError
   \<and> export sample_env []
      \<lparr>formato = Xlsx, incluir_metadatos = True, filtros = Map.empty, ruta_salida = None,
       nombre_archivo = Some ''informe''\<rparr> (sample_fs False)
     \<noteq> Inl (ValueError ''Formato no soportado: xlsx'')"
  by (simp add: export_def Let_def sample_fs_def)

end
